theory Spec2Isabelle
  imports Main "HOL-Library.Sublist"
begin

section \<open>Go library functions used by the server\<close>

text \<open>
  Strings are byte lists, as Go's are. \<open>HasPrefix\<close> and \<open>Contains\<close> are
  \<^verbatim>\<open>strings.HasPrefix\<close> and \<^verbatim>\<open>strings.Contains\<close>; \<open>Split\<close> is
  \<^verbatim>\<open>strings.Split\<close> with a one-byte separator.
\<close>

fun HasPrefix :: "string \<Rightarrow> string \<Rightarrow> bool" where
  "HasPrefix s [] = True"
| "HasPrefix [] (p # ps) = False"
| "HasPrefix (c # cs) (p # ps) = (c = p \<and> HasPrefix cs ps)"

fun Contains :: "string \<Rightarrow> string \<Rightarrow> bool" where
  "Contains [] substr = (substr = [])"
| "Contains (c # cs) substr = (HasPrefix (c # cs) substr \<or> Contains cs substr)"

fun Split :: "string \<Rightarrow> char \<Rightarrow> string list" where
  "Split [] sep = [[]]"
| "Split (c # cs) sep =
     (if c = sep then [] # Split cs sep
      else (case Split cs sep of
              [] \<Rightarrow> [[c]]
            | p # ps \<Rightarrow> (c # p) # ps))"

section \<open>API versions\<close>

text \<open>
  Modelled from the spec: package \<^verbatim>\<open>pkg/version\<close> (the type \<^verbatim>\<open>version.Version\<close> and its
  comparison methods) is not among the sources. The spec describes an APIVersion as
  "a dotted-numeric version value with total ordering (greater/less/equal-or-greater
  comparisons)". A version is its string; \<open>compareTo\<close> splits both versions at the dots
  and compares the components as numbers from the left, a component that one version
  lacks counting as 0. The result is 1, -1 or 0. The number of a component (\<open>Atoi\<close>) is
  its value when it is a non-empty string of decimal digits, and 0 otherwise; the router
  only admits version tokens matching \<^verbatim>\<open>[0-9.]+\<close>.
\<close>

type_synonym Version = string

definition digit_val :: "char \<Rightarrow> nat option" where
  "digit_val c =
     (let n = (of_char c :: nat) in if 48 \<le> n \<and> n \<le> 57 then Some (n - 48) else None)"

fun parse_digits :: "nat \<Rightarrow> string \<Rightarrow> nat option" where
  "parse_digits acc [] = Some acc"
| "parse_digits acc (c # cs) =
     (case digit_val c of
        None \<Rightarrow> None
      | Some d \<Rightarrow> parse_digits (10 * acc + d) cs)"

definition Atoi :: "string \<Rightarrow> int" where
  "Atoi s = (if s = [] then 0 else (case parse_digits 0 s of None \<Rightarrow> 0 | Some n \<Rightarrow> int n))"

fun compareTabs :: "string list \<Rightarrow> string list \<Rightarrow> int" where
  "compareTabs [] [] = 0"
| "compareTabs (s # meTab) [] =
     (if Atoi s > 0 then 1 else if 0 > Atoi s then -1 else compareTabs meTab [])"
| "compareTabs [] (t # otherTab) =
     (if 0 > Atoi t then 1 else if Atoi t > 0 then -1 else compareTabs [] otherTab)"
| "compareTabs (s # meTab) (t # otherTab) =
     (if Atoi s > Atoi t then 1 else if Atoi t > Atoi s then -1 else compareTabs meTab otherTab)"

definition compareTo :: "Version \<Rightarrow> Version \<Rightarrow> int" where
  "compareTo me other = compareTabs (Split me CHR ''.'') (Split other CHR ''.'')"

definition LessThan :: "Version \<Rightarrow> Version \<Rightarrow> bool" where
  "LessThan me other = (compareTo me other = -1)"

definition GreaterThan :: "Version \<Rightarrow> Version \<Rightarrow> bool" where
  "GreaterThan me other = (compareTo me other = 1)"

definition GreaterThanOrEqualTo :: "Version \<Rightarrow> Version \<Rightarrow> bool" where
  "GreaterThanOrEqualTo me other = (compareTo me other \<ge> 0)"

definition Equal :: "Version \<Rightarrow> Version \<Rightarrow> bool" where
  "Equal me other = (compareTo me other = 0)"

section \<open>The response writer\<close>

text \<open>
  An \<^verbatim>\<open>http.ResponseWriter\<close> as the handlers use it: the header map, the status line
  once it is committed, and the body bytes written so far. \<open>WriteHeader\<close> commits the
  status once (a later call changes nothing); the first \<open>Write\<close> commits status 200 when
  none was committed before.
\<close>

record ResponseWriter =
  header :: "(string \<times> string) list"
  status :: "nat option"
  body :: string

definition newResponseWriter :: ResponseWriter where
  "newResponseWriter = \<lparr>header = [], status = None, body = []\<rparr>"

definition StatusOK :: nat where "StatusOK = 200"
definition StatusCreated :: nat where "StatusCreated = 201"
definition StatusNoContent :: nat where "StatusNoContent = 204"
definition StatusNotModified :: nat where "StatusNotModified = 304"
definition StatusBadRequest :: nat where "StatusBadRequest = 400"
definition StatusUnauthorized :: nat where "StatusUnauthorized = 401"
definition StatusForbidden :: nat where "StatusForbidden = 403"
definition StatusNotFound :: nat where "StatusNotFound = 404"
definition StatusNotAcceptable :: nat where "StatusNotAcceptable = 406"
definition StatusConflict :: nat where "StatusConflict = 409"
definition StatusInternalServerError :: nat where "StatusInternalServerError = 500"

lemmas Status_defs =
  StatusOK_def StatusCreated_def StatusNoContent_def StatusNotModified_def
  StatusBadRequest_def StatusUnauthorized_def StatusForbidden_def StatusNotFound_def
  StatusNotAcceptable_def StatusConflict_def StatusInternalServerError_def

definition Header_Set :: "string \<Rightarrow> string \<Rightarrow> ResponseWriter \<Rightarrow> ResponseWriter" where
  "Header_Set k v w = w\<lparr>header := filter (\<lambda>kv. fst kv \<noteq> k) (header w) @ [(k, v)]\<rparr>"

definition Header_Add :: "string \<Rightarrow> string \<Rightarrow> ResponseWriter \<Rightarrow> ResponseWriter" where
  "Header_Add k v w = w\<lparr>header := header w @ [(k, v)]\<rparr>"

definition WriteHeader :: "nat \<Rightarrow> ResponseWriter \<Rightarrow> ResponseWriter" where
  "WriteHeader code w = (if status w = None then w\<lparr>status := Some code\<rparr> else w)"

definition Write :: "string \<Rightarrow> ResponseWriter \<Rightarrow> ResponseWriter" where
  "Write p w = (WriteHeader StatusOK w)\<lparr>body := body w @ p\<rparr>"

text \<open>\<^verbatim>\<open>http.Error\<close>: a plain-text reply with the given status and the message on one line.\<close>

definition http_Error :: "string \<Rightarrow> nat \<Rightarrow> ResponseWriter \<Rightarrow> ResponseWriter" where
  "http_Error msg code w =
     Write (msg @ [CHR 0x0A])
       (WriteHeader code (Header_Set ''Content-Type'' ''text/plain; charset=utf-8'' w))"

section \<open>Job errors to HTTP status codes\<close>

text \<open>
  \<open>httpError_statusCode\<close> is the local variable \<^verbatim>\<open>statusCode\<close> of \<^verbatim>\<open>httpError\<close> after the
  chain of \<^verbatim>\<open>strings.Contains\<close> tests; the error is given by its message
  (\<^verbatim>\<open>err.Error()\<close>), and \<^verbatim>\<open>httpError\<close> is only called with a non-nil error.
\<close>

definition httpError_statusCode :: "string \<Rightarrow> nat" where
  "httpError_statusCode err =
     (if Contains err ''No such'' then StatusNotFound
      else if Contains err ''Bad parameter'' then StatusBadRequest
      else if Contains err ''Conflict'' then StatusConflict
      else if Contains err ''Impossible'' then StatusNotAcceptable
      else if Contains err ''Wrong login/password'' then StatusUnauthorized
      else if Contains err ''hasn't been activated'' then StatusForbidden
      else StatusInternalServerError)"

definition httpError :: "ResponseWriter \<Rightarrow> string \<Rightarrow> ResponseWriter" where
  "httpError w err = http_Error err (httpError_statusCode err) w"

text \<open>
  A first-match policy over an ordered table of (substring, status) pairs, with 500 for
  a message that matches no entry, and the table in the order the spec lists it.
\<close>

fun first_match :: "(string \<times> nat) list \<Rightarrow> string \<Rightarrow> nat" where
  "first_match [] msg = 500"
| "first_match ((sub, code) # rest) msg =
     (if Contains msg sub then code else first_match rest msg)"

definition spec_status_table :: "(string \<times> nat) list" where
  "spec_status_table =
     [(''No such'', 404), (''Conflict'', 409), (''Bad parameter'', 400),
      (''Impossible'', 406), (''Wrong login/password'', 401),
      (''hasn't been activated'', 403)]"

definition code_status_table :: "(string \<times> nat) list" where
  "code_status_table =
     [(''No such'', 404), (''Bad parameter'', 400), (''Conflict'', 409),
      (''Impossible'', 406), (''Wrong login/password'', 401),
      (''hasn't been activated'', 403)]"

section \<open>Jobs, environments and requests\<close>

text \<open>
  Modelled from the spec: package \<^verbatim>\<open>engine\<close> (Env, Table, Job, Output) is not among the
  sources. The spec describes an Env as an "ordered list of (key, serialized-value)
  pairs; keys unique within one Env" and a job's parameter environment as a "mapping of
  string keys to typed values: string, boolean, integer, JSON blob, nested
  sub-environment, list". An Env is therefore an association list from keys to typed
  values; \<open>Env_Set\<close> replaces the value of a key that is present and appends the pair
  otherwise; a getter reads a value of its own kind and gives the zero value of the kind
  (the empty string, the empty list, false, no sub-environment) for any other key.
  For \<open>GetInt64\<close> the value for a key that holds no integer is -1.
\<close>

datatype Json = JString string | JArray "Json list" | JObject "(string \<times> Json) list"

datatype Value =
    VString string
  | VBool bool
  | VInt int
  | VJson Json
  | VList "string list"
  | VSubEnv "(string \<times> Value) list"

type_synonym Env = "(string \<times> Value) list"

fun Env_Set :: "string \<Rightarrow> Value \<Rightarrow> Env \<Rightarrow> Env" where
  "Env_Set k v [] = [(k, v)]"
| "Env_Set k v ((k', v') # e) = (if k' = k then (k, v) # e else (k', v') # Env_Set k v e)"

definition Get :: "Env \<Rightarrow> string \<Rightarrow> string" where
  "Get e k = (case map_of e k of Some (VString s) \<Rightarrow> s | _ \<Rightarrow> [])"

definition GetBool :: "Env \<Rightarrow> string \<Rightarrow> bool" where
  "GetBool e k = (case map_of e k of Some (VBool b) \<Rightarrow> b | _ \<Rightarrow> False)"

definition GetInt64 :: "Env \<Rightarrow> string \<Rightarrow> int" where
  "GetInt64 e k = (case map_of e k of Some (VInt n) \<Rightarrow> n | _ \<Rightarrow> -1)"

definition GetJson :: "Env \<Rightarrow> string \<Rightarrow> Json option" where
  "GetJson e k = (case map_of e k of Some (VJson j) \<Rightarrow> Some j | _ \<Rightarrow> None)"

definition GetList :: "Env \<Rightarrow> string \<Rightarrow> string list" where
  "GetList e k = (case map_of e k of Some (VList l) \<Rightarrow> l | _ \<Rightarrow> [])"

definition GetSubEnv :: "Env \<Rightarrow> string \<Rightarrow> Env option" where
  "GetSubEnv e k = (case map_of e k of Some (VSubEnv s) \<Rightarrow> Some s | _ \<Rightarrow> None)"

text \<open>
  A job as the gateway builds it with \<^verbatim>\<open>eng.Job(name, args...)\<close>, \<^verbatim>\<open>job.Setenv...\<close> and
  \<^verbatim>\<open>job.Stdin.Add\<close>. The work behind a job is outside the gateway: an engine is a
  function from the job that is run to what the run does, namely the \<^verbatim>\<open>Write\<close> calls on
  the job's standard and diagnostic streams, in order, and the error of \<^verbatim>\<open>job.Run()\<close>.
  \<^verbatim>\<open>job.Stdout.Used()\<close> holds when the run made a \<^verbatim>\<open>Write\<close> call on the standard stream.
\<close>

datatype JobStream = JobStdout | JobStderr

record Job =
  Name :: string
  Args :: "string list"
  jenv :: Env
  jstdin :: "string option"

record JobResult =
  writes :: "(JobStream \<times> string) list"
  jerr :: "string option"

type_synonym Engine = "Job \<Rightarrow> JobResult"

definition newJob :: "string \<Rightarrow> string list \<Rightarrow> Job" where
  "newJob name args = \<lparr>Name = name, Args = args, jenv = [], jstdin = None\<rparr>"

definition Setenv :: "string \<Rightarrow> string \<Rightarrow> Job \<Rightarrow> Job" where
  "Setenv k v job = job\<lparr>jenv := Env_Set k (VString v) (jenv job)\<rparr>"

definition SetenvBool :: "string \<Rightarrow> bool \<Rightarrow> Job \<Rightarrow> Job" where
  "SetenvBool k b job = job\<lparr>jenv := Env_Set k (VBool b) (jenv job)\<rparr>"

definition SetenvJson :: "string \<Rightarrow> Json \<Rightarrow> Job \<Rightarrow> Job" where
  "SetenvJson k j job = job\<lparr>jenv := Env_Set k (VJson j) (jenv job)\<rparr>"

definition stdout_writes :: "JobResult \<Rightarrow> string list" where
  "stdout_writes res = map snd (filter (\<lambda>tw. fst tw = JobStdout) (writes res))"

definition Used :: "JobResult \<Rightarrow> bool" where
  "Used res = (stdout_writes res \<noteq> [])"

text \<open>
  A request as the handlers read it: the route variables of \<^verbatim>\<open>mux.Vars(r)\<close> (\<open>None\<close> is
  the nil map), the headers, the form values that \<^verbatim>\<open>r.ParseForm()\<close> leaves in \<^verbatim>\<open>r.Form\<close>
  together with the error it returned, and the body (\<open>None\<close> is a nil body).
\<close>

record Request =
  Method :: string
  RequestURI :: string
  Vars :: "(string \<times> string) list option"
  Header :: "(string \<times> string list) list"
  Form :: "(string \<times> string list) list"
  ParseForm_err :: "string option"
  Body :: "string option"
  ContentLength :: int

definition Vars_get :: "(string \<times> string) list option \<Rightarrow> string \<Rightarrow> string" where
  "Vars_get vars k =
     (case vars of
        None \<Rightarrow> []
      | Some vs \<Rightarrow> (case map_of vs k of None \<Rightarrow> [] | Some v \<Rightarrow> v))"

definition Values_Get :: "(string \<times> string list) list \<Rightarrow> string \<Rightarrow> string" where
  "Values_Get m k = (case map_of m k of Some (v # _) \<Rightarrow> v | _ \<Rightarrow> [])"

definition Header_Get :: "Request \<Rightarrow> string \<Rightarrow> string" where
  "Header_Get r k = Values_Get (Header r) k"

definition Form_Get :: "Request \<Rightarrow> string \<Rightarrow> string" where
  "Form_Get r k = Values_Get (Form r) k"

definition parseForm :: "Request \<Rightarrow> string option" where
  "parseForm r =
     (case ParseForm_err r of
        None \<Rightarrow> None
      | Some e \<Rightarrow> if \<not> HasPrefix e ''mime:'' then Some e else None)"

text \<open>
  What a handler leaves behind: the error it returns (\<open>None\<close> is nil), the response
  writer, the bytes written on the connection once it is hijacked, the names of the jobs
  constructed with \<^verbatim>\<open>eng.Job\<close> and the jobs that were run, both in order. Writes to the
  response writer and to the connection do not fail in the model, and log lines, which
  no response depends on, are left out of the handlers.
\<close>

record Outcome =
  ret :: "string option"
  resp :: ResponseWriter
  conn :: string
  created :: "string list"
  ran :: "Job list"

type_synonym HttpApiFunc =
  "Version \<Rightarrow> ResponseWriter \<Rightarrow> Request \<Rightarrow> (string \<times> string) list option \<Rightarrow> Outcome"

definition returns :: "string option \<Rightarrow> ResponseWriter \<Rightarrow> string list \<Rightarrow> Job list \<Rightarrow> Outcome" where
  "returns e w cs js = \<lparr>ret = e, resp = w, conn = [], created = cs, ran = js\<rparr>"

text \<open>The stream tags of \<^verbatim>\<open>utils.StdWriter\<close>: \<^verbatim>\<open>utils.Stdin\<close>, \<^verbatim>\<open>utils.Stdout\<close>, \<^verbatim>\<open>utils.Stderr\<close>.\<close>

datatype StdType = Stdin | Stdout | Stderr

text \<open>
  The collaborators whose code is not among the sources are parameters of the handlers:
  the decoders of credentials and bodies (\<open>None\<close> or \<open>Inl\<close> is a decoding error),
  \<^verbatim>\<open>parsers.ParseRepositoryTag\<close>, \<^verbatim>\<open>utils.NewStreamFormatter(json).FormatError\<close>,
  \<^verbatim>\<open>api.MatchesContentType\<close>, \<^verbatim>\<open>api.DisplayablePorts\<close> after \<^verbatim>\<open>Table.ReadListFrom\<close>, the
  engine's reading of a string parameter as a boolean (\<^verbatim>\<open>GetenvBool\<close> after \<^verbatim>\<open>Setenv\<close>),
  the decoding of a job's output by \<^verbatim>\<open>AddEnv\<close>, \<^verbatim>\<open>AddTable\<close> and \<^verbatim>\<open>AddListTable\<close> together
  with the error these calls return, \<^verbatim>\<open>Table.WriteListTo\<close>, the frame that a
  \<^verbatim>\<open>utils.StdWriter\<close> puts around one write, and the error of hijacking the connection.
\<close>

record Extern =
  decodeAuth :: "string \<Rightarrow> Json option"
  decodeConfigFile :: "string \<Rightarrow> Json option"
  decodeBody :: "string option \<Rightarrow> string + Json"
  decodeEnvBody :: "string option \<Rightarrow> string + Env"
  ParseRepositoryTag :: "string \<Rightarrow> string \<times> string"
  FormatError :: "bool \<Rightarrow> string \<Rightarrow> string"
  MatchesContentType :: "string \<Rightarrow> string \<Rightarrow> bool"
  DisplayablePorts :: "string \<Rightarrow> string"
  stringBool :: "string \<Rightarrow> bool"
  AddEnv_err :: "string option"
  AddTable_err :: "string option"
  AddListTable_err :: "string option"
  decodeEnv :: "string \<Rightarrow> Env"
  decodeTable :: "string \<Rightarrow> Env list"
  decodeListTable :: "string \<Rightarrow> Env list"
  WriteListTo :: "Env list \<Rightarrow> string"
  frame :: "StdType \<Rightarrow> string \<Rightarrow> string"
  Hijack_err :: "string option"

text \<open>
  The zero values \<^verbatim>\<open>&registry.AuthConfig{}\<close> and \<^verbatim>\<open>&registry.ConfigFile{}\<close>: objects with no
  field set.
\<close>

definition emptyAuthConfig :: Json where
  "emptyAuthConfig = JObject []"

definition emptyConfigFile :: Json where
  "emptyConfigFile = JObject []"

section \<open>The handler wrapper\<close>

text \<open>
  \<^verbatim>\<open>makeHttpHandler\<close>, with the constant \<^verbatim>\<open>api.APIVERSION\<close> as the parameter \<open>APIVERSION\<close>
  (package \<^verbatim>\<open>api\<close> is not among the sources). The wrapper only logs until it resolves
  the version.
\<close>

definition writeCorsHeaders :: "ResponseWriter \<Rightarrow> ResponseWriter" where
  "writeCorsHeaders w =
     Header_Add ''Access-Control-Allow-Methods'' ''GET, POST, DELETE, PUT, OPTIONS''
       (Header_Add ''Access-Control-Allow-Headers''
          ''Origin, X-Requested-With, Content-Type, Accept''
          (Header_Add ''Access-Control-Allow-Origin'' ''*'' w))"

definition resolveVersion :: "Version \<Rightarrow> Request \<Rightarrow> Version" where
  "resolveVersion APIVERSION r =
     (let version = Vars_get (Vars r) ''version''
      in if version = [] then APIVERSION else version)"

definition versionError :: "Version \<Rightarrow> Version \<Rightarrow> string" where
  "versionError version APIVERSION =
     ''client and server don't have same version (client : '' @ version @
     '', server: '' @ APIVERSION @ '')''"

definition makeHttpHandler ::
  "Version \<Rightarrow> bool \<Rightarrow> HttpApiFunc \<Rightarrow> ResponseWriter \<Rightarrow> Request \<Rightarrow> Outcome" where
  "makeHttpHandler APIVERSION enableCors handlerFunc w r =
     (let version = resolveVersion APIVERSION r;
          w1 = (if enableCors then writeCorsHeaders w else w)
      in if GreaterThan version APIVERSION
         then returns None (http_Error (versionError version APIVERSION) StatusNotFound w1) [] []
         else (let out = handlerFunc version w1 r (Vars r)
               in (case ret out of
                     None \<Rightarrow> out
                   | Some e \<Rightarrow> out\<lparr>resp := httpError (resp out) e\<rparr>)))"

section \<open>Starting and stopping a container\<close>

text \<open>
  The end shared by \<^verbatim>\<open>postContainersStart\<close> and \<^verbatim>\<open>postContainersStop\<close>: the job runs; an
  error whose message equals \<open>already\<close> gives status 304 and nil, any other error is
  returned, and success gives status 204.
\<close>

definition runOrNotModified :: "Engine \<Rightarrow> string \<Rightarrow> Job \<Rightarrow> ResponseWriter \<Rightarrow> Outcome" where
  "runOrNotModified eng already job w =
     (case jerr (eng job) of
        Some e \<Rightarrow>
          if e = already
          then returns None (WriteHeader StatusNotModified w) [Name job] [job]
          else returns (Some e) w [Name job] [job]
      | None \<Rightarrow> returns None (WriteHeader StatusNoContent w) [Name job] [job])"

definition postContainersStart :: "Extern \<Rightarrow> Engine \<Rightarrow> HttpApiFunc" where
  "postContainersStart ext eng version w r vars =
     (if vars = None then returns (Some ''Missing parameter'') w [] []
      else
        (let name = Vars_get vars ''name'';
             job = newJob ''start'' [name]
         in if Body r \<noteq> None \<and> ContentLength r > 0
            then
              (if \<not> MatchesContentType ext (Header_Get r ''Content-Type'') ''application/json''
               then returns (Some ''Content-Type of application/json is required'') w
                      [''start''] []
               else
                 (case decodeEnvBody ext (Body r) of
                    Inl e \<Rightarrow> returns (Some e) w [''start''] []
                  | Inr kvs \<Rightarrow>
                      runOrNotModified eng ''Container already started''
                        (job\<lparr>jenv := fold (\<lambda>kv. Env_Set (fst kv) (snd kv)) kvs (jenv job)\<rparr>)
                        w))
            else runOrNotModified eng ''Container already started'' job w))"

definition postContainersStop :: "Extern \<Rightarrow> Engine \<Rightarrow> HttpApiFunc" where
  "postContainersStop ext eng version w r vars =
     (case parseForm r of
        Some e \<Rightarrow> returns (Some e) w [] []
      | None \<Rightarrow>
          if vars = None then returns (Some ''Missing parameter'') w [] []
          else runOrNotModified eng ''Container already stopped''
                 (Setenv ''t'' (Form_Get r ''t'') (newJob ''stop'' [Vars_get vars ''name'']))
                 w)"

section \<open>Streaming-result handlers\<close>

text \<open>
  \<^verbatim>\<open>streamJSON\<close> sets the content type and adds the response writer to the job's standard
  stream: from then on every write of the job is a \<open>Write\<close> on the response writer
  (\<open>Write_all\<close>). \<open>metaHeaders\<close> is the map the handlers collect from the request headers
  whose name starts with \<^verbatim>\<open>X-Meta-\<close>.
\<close>

definition streamJSON :: "ResponseWriter \<Rightarrow> ResponseWriter" where
  "streamJSON w = Header_Set ''Content-Type'' ''application/json'' w"

definition Write_all :: "string list \<Rightarrow> ResponseWriter \<Rightarrow> ResponseWriter" where
  "Write_all ps w = fold Write ps w"

definition metaHeaders :: "Request \<Rightarrow> Json" where
  "metaHeaders r =
     JObject (map (\<lambda>kv. (fst kv, JArray (map JString (snd kv))))
                (filter (\<lambda>kv. HasPrefix (fst kv) ''X-Meta-'') (Header r)))"

definition headerAuthConfig :: "Extern \<Rightarrow> Request \<Rightarrow> Json" where
  "headerAuthConfig ext r =
     (let authEncoded = Header_Get r ''X-Registry-Auth''
      in if authEncoded \<noteq> []
         then (case decodeAuth ext authEncoded of None \<Rightarrow> emptyAuthConfig | Some a \<Rightarrow> a)
         else emptyAuthConfig)"

text \<open>
  The end shared by \<^verbatim>\<open>postImagesPush\<close>, \<^verbatim>\<open>postImagesCreate\<close> and \<^verbatim>\<open>postBuild\<close>: the job
  runs with its standard stream wired to the response writer; when it fails, the error
  is returned if \<^verbatim>\<open>job.Stdout.Used()\<close> is false, and otherwise
  \<^verbatim>\<open>sf.FormatError(err)\<close> is written to the response and nil is returned. \<open>json\<close> is the
  argument of \<^verbatim>\<open>utils.NewStreamFormatter\<close>.
\<close>

definition runStreaming ::
  "Extern \<Rightarrow> Engine \<Rightarrow> bool \<Rightarrow> Job \<Rightarrow> ResponseWriter \<Rightarrow> Outcome" where
  "runStreaming ext eng json job w =
     (let res = eng job;
          w1 = Write_all (stdout_writes res) w
      in (case jerr res of
            None \<Rightarrow> returns None w1 [Name job] [job]
          | Some e \<Rightarrow>
              if \<not> Used res then returns (Some e) w1 [Name job] [job]
              else returns None (Write (FormatError ext json e) w1) [Name job] [job]))"

definition postImagesPush :: "Extern \<Rightarrow> Engine \<Rightarrow> HttpApiFunc" where
  "postImagesPush ext eng version w r vars =
     (if vars = None then returns (Some ''Missing parameter'') w [] []
      else
        (case parseForm r of
           Some e \<Rightarrow> returns (Some e) w [] []
         | None \<Rightarrow>
             (let authEncoded = Header_Get r ''X-Registry-Auth''
              in (case (if authEncoded \<noteq> []
                        then Inr (case decodeAuth ext authEncoded of
                                    None \<Rightarrow> emptyAuthConfig
                                  | Some a \<Rightarrow> a)
                        else decodeBody ext (Body r)) of
                    Inl e \<Rightarrow> returns (Some e) w [] []
                  | Inr authConfig \<Rightarrow>
                      (let job0 = newJob ''push'' [Vars_get vars ''name''];
                           job1 = Setenv ''tag'' (Form_Get r ''tag'')
                                    (SetenvJson ''authConfig'' authConfig
                                       (SetenvJson ''metaHeaders'' (metaHeaders r) job0));
                           json = GreaterThan version ''1.0''
                       in runStreaming ext eng json
                            (if json then SetenvBool ''json'' True job1 else job1)
                            (if json then streamJSON w else w))))))"

definition postImagesCreate :: "Extern \<Rightarrow> Engine \<Rightarrow> HttpApiFunc" where
  "postImagesCreate ext eng version w r vars =
     (case parseForm r of
        Some e \<Rightarrow> returns (Some e) w [] []
      | None \<Rightarrow>
          (let image = Form_Get r ''fromImage'';
               repo = Form_Get r ''repo'';
               tag = Form_Get r ''tag'';
               authConfig = headerAuthConfig ext r;
               job1 =
                 (if image \<noteq> []
                  then (let it = (if tag = [] then ParseRepositoryTag ext image else (image, tag))
                        in SetenvJson ''authConfig'' authConfig
                             (SetenvJson ''metaHeaders'' (metaHeaders r)
                                (SetenvBool ''parallel'' (GreaterThan version ''1.3'')
                                   (newJob ''pull'' [fst it, snd it]))))
                  else (let rt = (if tag = [] then ParseRepositoryTag ext repo else (repo, tag))
                        in (newJob ''import'' [Form_Get r ''fromSrc'', fst rt, snd rt])
                             \<lparr>jstdin := Body r\<rparr>));
               json = GreaterThan version ''1.0''
           in runStreaming ext eng json
                (if json then SetenvBool ''json'' True job1 else job1)
                (if json then streamJSON w else w)))"

definition postBuild :: "Extern \<Rightarrow> Engine \<Rightarrow> HttpApiFunc" where
  "postBuild ext eng version w r vars =
     (if LessThan version ''1.3''
      then returns
             (Some ''Multipart upload for build is no longer supported. Please upgrade your docker client.'')
             w [] []
      else
        (let authEncoded = Header_Get r ''X-Registry-Auth'';
             configFileEncoded = Header_Get r ''X-Registry-Config'';
             job0 = newJob ''build'' [];
             authConfig =
               (if LessThan version ''1.9'' \<and> authEncoded \<noteq> []
                then (case decodeAuth ext authEncoded of None \<Rightarrow> emptyAuthConfig | Some a \<Rightarrow> a)
                else emptyAuthConfig);
             configFile =
               (if configFileEncoded \<noteq> []
                then (case decodeConfigFile ext configFileEncoded of
                        None \<Rightarrow> emptyConfigFile
                      | Some c \<Rightarrow> c)
                else emptyConfigFile);
             json = GreaterThanOrEqualTo version ''1.8'';
             job1 = (if json then SetenvBool ''json'' True job0 else job0);
             w1 = (if json then streamJSON w else w);
             rm = (if Form_Get r ''forcerm'' = ''1'' \<and> GreaterThanOrEqualTo version ''1.12''
                   then ''1''
                   else if Form_Get r ''rm'' = [] \<and> GreaterThanOrEqualTo version ''1.12''
                   then ''1''
                   else Form_Get r ''rm'');
             job2 = (Setenv ''rm'' rm job1)\<lparr>jstdin := Body r\<rparr>;
             job3 = Setenv ''forcerm'' (Form_Get r ''forcerm'')
                      (Setenv ''nocache'' (Form_Get r ''nocache'')
                         (Setenv ''q'' (Form_Get r ''q'')
                            (Setenv ''t'' (Form_Get r ''t'')
                               (Setenv ''remote'' (Form_Get r ''remote'') job2))));
             job = SetenvJson ''configFile'' configFile
                     (SetenvJson ''authConfig'' authConfig job3)
         in runStreaming ext eng json job w1))"

definition getImagesSearch :: "Extern \<Rightarrow> Engine \<Rightarrow> HttpApiFunc" where
  "getImagesSearch ext eng version w r vars =
     (case parseForm r of
        Some e \<Rightarrow> returns (Some e) w [] []
      | None \<Rightarrow>
          (let authConfig = headerAuthConfig ext r;
               job = SetenvJson ''authConfig'' authConfig
                       (SetenvJson ''metaHeaders'' (metaHeaders r)
                          (newJob ''search'' [Form_Get r ''term'']));
               res = eng job
           in returns (jerr res) (Write_all (stdout_writes res) (streamJSON w))
                [''search''] [job]))"

section \<open>Listing handlers and their legacy shapes\<close>

definition legacyPorts :: "Extern \<Rightarrow> Env \<Rightarrow> Env" where
  "legacyPorts ext out =
     Env_Set ''Ports'' (VString (DisplayablePorts ext (Get out ''Ports''))) out"

definition getContainersJSON :: "Extern \<Rightarrow> Engine \<Rightarrow> HttpApiFunc" where
  "getContainersJSON ext eng version w r vars =
     (case parseForm r of
        Some e \<Rightarrow> returns (Some e) w [] []
      | None \<Rightarrow>
          (let job = Setenv ''filters'' (Form_Get r ''filters'')
                       (Setenv ''limit'' (Form_Get r ''limit'')
                          (Setenv ''before'' (Form_Get r ''before'')
                             (Setenv ''since'' (Form_Get r ''since'')
                                (Setenv ''size'' (Form_Get r ''size'')
                                   (Setenv ''all'' (Form_Get r ''all'')
                                      (newJob ''containers'' []))))));
               streaming = GreaterThanOrEqualTo version ''1.5''
           in if \<not> streaming \<and> AddTable_err ext \<noteq> None
              then returns (AddTable_err ext) w [''containers''] []
              else
                (let res = eng job;
                     w1 = (if streaming then Write_all (stdout_writes res) (streamJSON w) else w)
                 in (case jerr res of
                       Some e \<Rightarrow> returns (Some e) w1 [''containers''] [job]
                     | None \<Rightarrow>
                         if LessThan version ''1.5''
                         then (let outs = decodeTable ext (concat (stdout_writes res));
                                   outs' = map (legacyPorts ext) outs
                               in returns None
                                    (Write (WriteListTo ext outs')
                                       (Header_Set ''Content-Type'' ''application/json'' w1))
                                    [''containers''] [job])
                         else returns None w1 [''containers''] [job]))))"

definition legacyImage :: "Extern \<Rightarrow> Env \<Rightarrow> string \<Rightarrow> Env" where
  "legacyImage ext out repoTag =
     (let rt = ParseRepositoryTag ext repoTag
      in Env_Set ''VirtualSize'' (VInt (GetInt64 out ''VirtualSize''))
           (Env_Set ''Size'' (VInt (GetInt64 out ''Size''))
              (Env_Set ''Created'' (VInt (GetInt64 out ''Created''))
                 (Env_Set ''Id'' (VString (Get out ''Id''))
                    (Env_Set ''Tag'' (VJson (JString (snd rt)))
                       (Env_Set ''Repository'' (VString (fst rt)) []))))))"

definition legacyImages :: "Extern \<Rightarrow> Env list \<Rightarrow> Env list" where
  "legacyImages ext outs =
     concat (map (\<lambda>out. map (legacyImage ext out) (GetList out ''RepoTags'')) outs)"

definition getImagesJSON :: "Extern \<Rightarrow> Engine \<Rightarrow> HttpApiFunc" where
  "getImagesJSON ext eng version w r vars =
     (case parseForm r of
        Some e \<Rightarrow> returns (Some e) w [] []
      | None \<Rightarrow>
          (let job = Setenv ''all'' (Form_Get r ''all'')
                       (Setenv ''filter'' (Form_Get r ''filter'')
                          (Setenv ''filters'' (Form_Get r ''filters'')
                             (newJob ''images'' [])));
               streaming = GreaterThanOrEqualTo version ''1.7''
           in if \<not> streaming \<and> AddListTable_err ext \<noteq> None
              then returns (AddListTable_err ext) w [''images''] []
              else
                (let res = eng job;
                     w1 = (if streaming then Write_all (stdout_writes res) (streamJSON w) else w);
                     outs = (if streaming then None
                             else Some (decodeListTable ext (concat (stdout_writes res))))
                 in (case jerr res of
                       Some e \<Rightarrow> returns (Some e) w1 [''images''] [job]
                     | None \<Rightarrow>
                         (case outs of
                            Some os \<Rightarrow>
                              if LessThan version ''1.7''
                              then returns None
                                     (Write (WriteListTo ext (legacyImages ext os))
                                        (Header_Set ''Content-Type'' ''application/json'' w1))
                                     [''images''] [job]
                              else returns None w1 [''images''] [job]
                          | None \<Rightarrow> returns None w1 [''images''] [job])))))"

section \<open>Attach and logs: choosing the output streams\<close>

text \<open>
  A writer is the stream the handler starts from (the hijacked connection for attach,
  the flushing response writer for logs) or a \<^verbatim>\<open>utils.NewStdWriter\<close> around a writer.
  \<open>Writer_bytes\<close> gives the bytes that one \<^verbatim>\<open>Write\<close> call puts on the stream underneath.
  \<open>selectStreams\<close> is the \<^verbatim>\<open>if\<close> that both handlers run once, after the inspect job and
  before the attach or logs job: it returns \<^verbatim>\<open>outStream\<close> and \<^verbatim>\<open>errStream\<close>.
\<close>

datatype Writer = Base | StdWriter StdType Writer

fun Writer_bytes :: "Extern \<Rightarrow> Writer \<Rightarrow> string \<Rightarrow> string" where
  "Writer_bytes ext Base p = p"
| "Writer_bytes ext (StdWriter t wr) p = Writer_bytes ext wr (frame ext t p)"

definition selectStreams :: "Env \<Rightarrow> Version \<Rightarrow> Writer \<Rightarrow> Writer \<times> Writer" where
  "selectStreams c version outStream =
     (if (case GetSubEnv c ''Config'' of
            None \<Rightarrow> False
          | Some config \<Rightarrow> \<not> GetBool config ''Tty'' \<and> GreaterThanOrEqualTo version ''1.6'')
      then (StdWriter Stdout outStream, StdWriter Stderr outStream)
      else (outStream, outStream))"

fun deliver :: "Extern \<Rightarrow> Writer \<times> Writer \<Rightarrow> JobStream \<times> string \<Rightarrow> string" where
  "deliver ext (outStream, errStream) (JobStdout, p) = Writer_bytes ext outStream p"
| "deliver ext (outStream, errStream) (JobStderr, p) = Writer_bytes ext errStream p"

definition rawStreamHeader :: string where
  "rawStreamHeader =
     ''HTTP/1.1 200 OK'' @ [CHR 0x0D, CHR 0x0A] @
     ''Content-Type: application/vnd.docker.raw-stream'' @ [CHR 0x0D, CHR 0x0A] @
     [CHR 0x0D, CHR 0x0A]"

definition postContainersAttach :: "Extern \<Rightarrow> Engine \<Rightarrow> HttpApiFunc" where
  "postContainersAttach ext eng version w r vars =
     (case parseForm r of
        Some e \<Rightarrow> returns (Some e) w [] []
      | None \<Rightarrow>
          if vars = None then returns (Some ''Missing parameter'') w [] []
          else
            (let inspect = newJob ''container_inspect'' [Vars_get vars ''name'']
             in (case AddEnv_err ext of
                   Some e \<Rightarrow> returns (Some e) w [''container_inspect''] []
                 | None \<Rightarrow>
                     (let ires = eng inspect;
                          c = decodeEnv ext (concat (stdout_writes ires))
                      in (case jerr ires of
                            Some e \<Rightarrow> returns (Some e) w [''container_inspect''] [inspect]
                          | None \<Rightarrow>
                              (case Hijack_err ext of
                                 Some e \<Rightarrow> returns (Some e) w [''container_inspect''] [inspect]
                               | None \<Rightarrow>
                                   (let streams = selectStreams c version Base;
                                        job = (Setenv ''stderr'' (Form_Get r ''stderr'')
                                                (Setenv ''stdout'' (Form_Get r ''stdout'')
                                                  (Setenv ''stdin'' (Form_Get r ''stdin'')
                                                    (Setenv ''stream'' (Form_Get r ''stream'')
                                                      (Setenv ''logs'' (Form_Get r ''logs'')
                                                        (newJob ''attach''
                                                           [Vars_get vars ''name'']))))))
                                              \<lparr>jstdin := Body r\<rparr>;
                                        res = eng job;
                                        wire = rawStreamHeader @
                                               concat (map (deliver ext streams) (writes res))
                                    in \<lparr>ret = None, resp = w,
                                        conn = (case jerr res of
                                                  None \<Rightarrow> wire
                                                | Some e \<Rightarrow>
                                                    wire @ Writer_bytes ext (fst streams)
                                                      (''Error attaching: '' @ e @ [CHR 0x0A])),
                                        created = [''container_inspect'', ''attach''],
                                        ran = [inspect, job]\<rparr>)))))))"

definition getContainersLogs :: "Extern \<Rightarrow> Engine \<Rightarrow> HttpApiFunc" where
  "getContainersLogs ext eng version w r vars =
     (case parseForm r of
        Some e \<Rightarrow> returns (Some e) w [] []
      | None \<Rightarrow>
          if vars = None then returns (Some ''Missing parameter'') w [] []
          else
            (let inspectJob = newJob ''container_inspect'' [Vars_get vars ''name''];
                 cs = [''container_inspect'', ''logs'']
             in (case AddEnv_err ext of
                   Some e \<Rightarrow> returns (Some e) w cs []
                 | None \<Rightarrow>
                     (let logsJob = Setenv ''timestamps'' (Form_Get r ''timestamps'')
                                      (Setenv ''stderr'' (Form_Get r ''stderr'')
                                        (Setenv ''stdout'' (Form_Get r ''stdout'')
                                          (Setenv ''tail'' (Form_Get r ''tail'')
                                            (Setenv ''follow'' (Form_Get r ''follow'')
                                              (newJob ''logs'' [Vars_get vars ''name''])))));
                          stdout = stringBool ext (Form_Get r ''stdout'');
                          stderr = stringBool ext (Form_Get r ''stderr'')
                      in if \<not> (stdout \<or> stderr)
                         then returns
                                (Some ''Bad parameters: you must choose at least one stream'')
                                w cs []
                         else
                           (let ires = eng inspectJob;
                                c = decodeEnv ext (concat (stdout_writes ires))
                            in (case jerr ires of
                                  Some e \<Rightarrow> returns (Some e) w cs [inspectJob]
                                | None \<Rightarrow>
                                    (let streams = selectStreams c version Base;
                                         res = eng logsJob;
                                         w1 = Write_all (map (deliver ext streams) (writes res)) w
                                     in returns None
                                          (case jerr res of
                                             None \<Rightarrow> w1
                                           | Some e \<Rightarrow>
                                               Write (Writer_bytes ext (fst streams)
                                                        (''Error running logs job: '' @ e @
                                                         [CHR 0x0A])) w1)
                                          cs [inspectJob, logsJob])))))))"

section \<open>The activation gate and the ready notification\<close>

text \<open>
  \<^verbatim>\<open>SdNotify\<close> reads the environment variable \<^verbatim>\<open>NOTIFY_SOCKET\<close> (\<^verbatim>\<open>os.Getenv\<close> gives the
  empty string for an unset variable), dials the socket and writes the state. The
  network is a parameter: the error, if any, of \<^verbatim>\<open>net.DialUnix\<close> to an address and of
  the write of a datagram to it. The result is the error returned and a trace of the
  addresses dialled and the datagrams sent.
\<close>

datatype NotifyError = SdNotifyNoSocket | DialError string | WriteError string

record Net =
  DialUnix_err :: "string \<Rightarrow> string option"
  conn_Write_err :: "string \<Rightarrow> string \<Rightarrow> string option"

record NotifyTrace =
  dialled :: "string list"
  datagrams :: "(string \<times> string) list"

definition SdNotify :: "Net \<Rightarrow> string option \<Rightarrow> string \<Rightarrow> NotifyError option \<times> NotifyTrace" where
  "SdNotify net NOTIFY_SOCKET state =
     (let name = (case NOTIFY_SOCKET of None \<Rightarrow> [] | Some v \<Rightarrow> v)
      in if name = [] then (Some SdNotifyNoSocket, \<lparr>dialled = [], datagrams = []\<rparr>)
         else
           (case DialUnix_err net name of
              Some e \<Rightarrow> (Some (DialError e), \<lparr>dialled = [name], datagrams = []\<rparr>)
            | None \<Rightarrow>
                (case conn_Write_err net name state of
                   Some e \<Rightarrow> (Some (WriteError e), \<lparr>dialled = [name], datagrams = []\<rparr>)
                 | None \<Rightarrow> (None, \<lparr>dialled = [name], datagrams = [(name, state)]\<rparr>))))"

text \<open>
  The daemon state that the gate touches. \<open>activationLock\<close> is the package variable: a
  nil channel until \<^verbatim>\<open>ServeApi\<close> makes it, then an open channel on which nothing is ever
  sent, then a closed one. \<open>fd_pc\<close> is where \<^verbatim>\<open>ServeFd\<close> stands: before
  \<^verbatim>\<open>systemd.ListenFD\<close>, at the receive \<^verbatim>\<open><-activationLock\<close> with the number of inherited
  listeners, serving them, or returned with an error. \<open>accepts\<close> counts the accept calls
  made on inherited listeners, \<open>log\<close> holds the lines logged, and \<open>panicked\<close> tells that
  the process died of a run-time panic.
\<close>

datatype Chan = ChanNil | ChanOpen | ChanClosed

datatype ServeFdPc = AtListenFD | AtReceive nat | Serving nat | Returned string

datatype Status = StatusOK_engine | StatusErr_engine

datatype 'a Result = Return 'a | Panic string

record Daemon =
  activationLock :: Chan
  NOTIFY_SOCKET_env :: "string option"
  log :: "string list"
  notified :: "NotifyTrace list"
  fd_pc :: ServeFdPc
  accepts :: nat
  panicked :: bool

text \<open>
  \<^verbatim>\<open>AcceptConnections\<close>: the notification runs in a goroutine of its own and its result is
  dropped; it shares nothing with the gate, so the model runs it first. Closing a
  closed channel is a run-time panic in Go.
\<close>

definition AcceptConnections :: "Net \<Rightarrow> Daemon \<Rightarrow> Status Result \<times> Daemon" where
  "AcceptConnections net d =
     (let d1 = d\<lparr>notified := notified d @ [snd (SdNotify net (NOTIFY_SOCKET_env d) ''READY=1'')]\<rparr>
      in (case activationLock d of
            ChanNil \<Rightarrow> (Return StatusOK_engine, d1)
          | ChanOpen \<Rightarrow> (Return StatusOK_engine, d1\<lparr>activationLock := ChanClosed\<rparr>)
          | ChanClosed \<Rightarrow> (Panic ''close of closed channel'', d1\<lparr>panicked := True\<rparr>)))"

text \<open>
  The interleavings of \<^verbatim>\<open>ServeFd\<close> with the job that opens the gate, as events. An event
  that cannot happen in a state (a receive on a channel that is not closed blocks, a
  dead process does nothing) gives \<open>None\<close>. \<open>ListenFD\<close> stands for \<^verbatim>\<open>systemd.ListenFD\<close>,
  which is not among the sources: it gives an error or the number of inherited sockets.
\<close>

datatype Event = EvListenFD | EvReceive | EvAccept | EvAcceptConnections

definition step :: "(string \<Rightarrow> string + nat) \<Rightarrow> Net \<Rightarrow> string \<Rightarrow> Event \<Rightarrow> Daemon \<Rightarrow> Daemon option" where
  "step ListenFD net addr ev d =
     (if panicked d then None
      else
        (case ev of
           EvListenFD \<Rightarrow>
             (case fd_pc d of
                AtListenFD \<Rightarrow>
                  (case ListenFD addr of
                     Inl e \<Rightarrow> Some (d\<lparr>fd_pc := Returned e\<rparr>)
                   | Inr n \<Rightarrow> Some (d\<lparr>fd_pc := AtReceive n\<rparr>))
              | _ \<Rightarrow> None)
         | EvReceive \<Rightarrow>
             (case fd_pc d of
                AtReceive n \<Rightarrow>
                  if activationLock d = ChanClosed then Some (d\<lparr>fd_pc := Serving n\<rparr>) else None
              | _ \<Rightarrow> None)
         | EvAccept \<Rightarrow>
             (case fd_pc d of
                Serving n \<Rightarrow> if 0 < n then Some (d\<lparr>accepts := accepts d + 1\<rparr>) else None
              | _ \<Rightarrow> None)
         | EvAcceptConnections \<Rightarrow> Some (snd (AcceptConnections net d))))"

fun run :: "(string \<Rightarrow> string + nat) \<Rightarrow> Net \<Rightarrow> string \<Rightarrow> Event list \<Rightarrow> Daemon \<Rightarrow> Daemon option" where
  "run ListenFD net addr [] d = Some d"
| "run ListenFD net addr (ev # evs) d =
     (case step ListenFD net addr ev d of
        None \<Rightarrow> None
      | Some d' \<Rightarrow> run ListenFD net addr evs d')"

text \<open>
  The state in which \<^verbatim>\<open>ServeApi\<close> starts \<^verbatim>\<open>ServeFd\<close> for an address \<^verbatim>\<open>fd://addr\<close>: the
  gate is made and open, the listener is announced in the log, and no accept call has
  been made.
\<close>

definition ServeApi_start :: "string option \<Rightarrow> string \<Rightarrow> Daemon" where
  "ServeApi_start notify_socket addr =
     \<lparr>activationLock = ChanOpen, NOTIFY_SOCKET_env = notify_socket,
      log = [''Listening for HTTP on fd ('' @ addr @ '')''], notified = [],
      fd_pc = AtListenFD, accepts = 0, panicked = False\<rparr>"

text \<open>
  The invariant of the interleavings: \<^verbatim>\<open>ServeFd\<close> is past its receive, or an accept call
  has been made, only when the gate is closed.
\<close>

definition gate_inv :: "Daemon \<Rightarrow> bool" where
  "gate_inv d \<longleftrightarrow>
     (case fd_pc d of Serving n \<Rightarrow> activationLock d = ChanClosed | _ \<Rightarrow> True) \<and>
     (accepts d = 0 \<or> activationLock d = ChanClosed)"

section \<open>Example inputs\<close>

text \<open>
  Concrete collaborators and requests on which the theorems below are run. The example
  frame only puts a tag character in front of the payload (the header that
  \<^verbatim>\<open>utils.StdWriter\<close> really writes is not among the sources).
\<close>

definition tagFrame :: "StdType \<Rightarrow> string \<Rightarrow> string" where
  "tagFrame t p = (case t of Stdin \<Rightarrow> CHR ''I'' | Stdout \<Rightarrow> CHR ''O'' | Stderr \<Rightarrow> CHR ''E'') # p"

definition ext0 :: Extern where
  "ext0 =
     \<lparr>decodeAuth = (\<lambda>s. if s = ''ok'' then Some (JObject [(''username'', JString ''u'')])
                         else None),
      decodeConfigFile = (\<lambda>s. None),
      decodeBody = (\<lambda>b. if b = Some ''{}'' then Inr (JObject []) else Inl ''EOF''),
      decodeEnvBody = (\<lambda>b. if b = Some ''{}'' then Inr [] else Inl ''EOF''),
      ParseRepositoryTag = (\<lambda>s. if s = ''bb:1'' then (''bb'', ''1'')
                                 else if s = ''bb:2'' then (''bb'', ''2'') else (s, [])),
      FormatError = (\<lambda>json e. if json then ''{error:'' @ e @ ''}'' else ''Error: '' @ e),
      MatchesContentType = (\<lambda>ct expected. ct = expected),
      DisplayablePorts = (\<lambda>s. if s = [] then [] else ''80/tcp''),
      stringBool = (\<lambda>s. s = ''1''),
      AddEnv_err = None,
      AddTable_err = None,
      AddListTable_err = None,
      decodeEnv = (\<lambda>s. if s = ''tty'' then [(''Config'', VSubEnv [(''Tty'', VBool True)])]
                        else if s = ''raw'' then [(''Config'', VSubEnv [(''Tty'', VBool False)])]
                        else []),
      decodeTable = (\<lambda>s. if s = ''[c1]''
                          then [[(''Id'', VString ''c1''), (''Ports'', VString ''[p]'')]]
                          else []),
      decodeListTable = (\<lambda>s. if s = ''[i1]''
                              then [[(''Id'', VString ''i1''), (''RepoTags'', VList [''bb:1'', ''bb:2'']),
                                     (''Created'', VInt 5), (''Size'', VInt 10),
                                     (''VirtualSize'', VInt 20)]]
                              else []),
      WriteListTo = (\<lambda>t. concat (map (\<lambda>e. Get e ''Id'' @ '':'' @ Get e ''Ports'' @
                                           Get e ''Repository'' @ '';'') t)),
      frame = tagFrame,
      Hijack_err = None\<rparr>"

definition eng0 :: Engine where
  "eng0 job =
     (if Name job = ''stop'' then \<lparr>writes = [], jerr = Some ''Container already stopped''\<rparr>
      else if Name job = ''start'' then \<lparr>writes = [], jerr = Some ''No such container: c1''\<rparr>
      else if Name job = ''push'' then \<lparr>writes = [(JobStdout, ''{s}'')], jerr = Some ''denied''\<rparr>
      else if Name job = ''pull'' then \<lparr>writes = [], jerr = Some ''No such image''\<rparr>
      else if Name job = ''build'' then \<lparr>writes = [(JobStdout, ''{b}'')], jerr = Some ''failed''\<rparr>
      else if Name job = ''container_inspect'' then \<lparr>writes = [(JobStdout, ''raw'')], jerr = None\<rparr>
      else if Name job = ''attach''
      then \<lparr>writes = [(JobStderr, ''err''), (JobStdout, ''out'')], jerr = None\<rparr>
      else if Name job = ''logs''
      then \<lparr>writes = [(JobStderr, ''err''), (JobStdout, ''out'')], jerr = None\<rparr>
      else if Name job = ''containers'' then \<lparr>writes = [(JobStdout, ''[c1]'')], jerr = None\<rparr>
      else if Name job = ''images'' then \<lparr>writes = [(JobStdout, ''[i1]'')], jerr = None\<rparr>
      else \<lparr>writes = [], jerr = None\<rparr>)"

definition req0 :: Request where
  "req0 =
     \<lparr>Method = ''POST'', RequestURI = ''/containers/c1/stop'',
      Vars = Some [(''name'', ''c1'')], Header = [], Form = [], ParseForm_err = None,
      Body = Some [], ContentLength = 0\<rparr>"

definition net0 :: Net where
  "net0 = \<lparr>DialUnix_err = (\<lambda>a. Some ''connection refused''),
           conn_Write_err = (\<lambda>a s. None)\<rparr>"

section \<open>Properties of the library model\<close>

lemma HasPrefix_iff: "HasPrefix s p \<longleftrightarrow> prefix p s"
  by (induction s p rule: HasPrefix.induct) auto

lemma Contains_iff: "Contains s sub \<longleftrightarrow> sublist sub s"
proof (induction s)
  case Nil
  show ?case by simp
next
  case (Cons c cs)
  show ?case
    by (simp add: Cons.IH HasPrefix_iff sublist_Cons_right)
qed


lemma compareTabs_refl: "compareTabs xs xs = 0"
  by (induction xs) simp_all

lemma not_GreaterThan_self: "\<not> GreaterThan v v"
  by (simp add: GreaterThan_def compareTo_def compareTabs_refl)

lemma LessThan_iff_not_GreaterThanOrEqualTo:
  "LessThan v t \<longleftrightarrow> \<not> GreaterThanOrEqualTo v t"
proof -
  have "compareTabs xs ys \<in> {-1, 0, 1}" for xs ys
    by (induction xs ys rule: compareTabs.induct) simp_all
  then have "compareTo v t \<in> {-1, 0, 1}"
    by (simp add: compareTo_def)
  then show ?thesis
    by (auto simp: LessThan_def GreaterThanOrEqualTo_def)
qed

section \<open>Properties of the response writer\<close>

lemma status_http_Error: "status w = None \<Longrightarrow> status (http_Error msg code w) = Some code"
  by (simp add: http_Error_def Write_def WriteHeader_def Header_Set_def)

lemma body_http_Error: "body (http_Error msg code w) = body w @ msg @ [CHR 0x0A]"
  by (simp add: http_Error_def Write_def WriteHeader_def Header_Set_def)

lemma status_writeCorsHeaders: "status (writeCorsHeaders w) = status w"
  by (simp add: writeCorsHeaders_def Header_Add_def)

lemma body_writeCorsHeaders: "body (writeCorsHeaders w) = body w"
  by (simp add: writeCorsHeaders_def Header_Add_def)

lemma body_Write_all: "body (Write_all ps w) = body w @ concat ps"
  unfolding Write_all_def
  by (induction ps arbitrary: w) (simp_all add: Write_def WriteHeader_def)

lemma header_Write_all: "header (Write_all ps w) = header w"
  unfolding Write_all_def
  by (induction ps arbitrary: w) (simp_all add: Write_def WriteHeader_def)

lemma Write_all_Nil: "Write_all [] w = w"
  by (simp add: Write_all_def)

lemma ran_returns: "ran (returns e w cs js) = js"
  by (simp add: returns_def)

section \<open>The version gate\<close>

text \<open>
  C1. A request whose resolved version is greater than the server's API version gets
  the 404 reply of \<^verbatim>\<open>http.Error\<close> with the version message: the outcome is the same
  whatever the handler is, no job is constructed and none is run. A request without a
  version token resolves to the server's API version, which the gate lets through: the
  outcome is that of the handler, called with that version, with \<open>httpError\<close> applied to
  the error it returns.
\<close>

theorem makeHttpHandler_version_gate:
  "(GreaterThan (resolveVersion APIVERSION r) APIVERSION \<longrightarrow>
      (let out = makeHttpHandler APIVERSION enableCors handlerFunc w r
       in out = returns None
                  (http_Error (versionError (resolveVersion APIVERSION r) APIVERSION)
                     StatusNotFound (if enableCors then writeCorsHeaders w else w)) [] [] \<and>
          created out = [] \<and> ran out = [] \<and>
          (status w = None \<longrightarrow> status (resp out) = Some 404))) \<and>
   (Vars_get (Vars r) ''version'' = [] \<longrightarrow>
      resolveVersion APIVERSION r = APIVERSION \<and>
      \<not> GreaterThan (resolveVersion APIVERSION r) APIVERSION \<and>
      makeHttpHandler APIVERSION enableCors handlerFunc w r =
        (let out = handlerFunc APIVERSION (if enableCors then writeCorsHeaders w else w) r (Vars r)
         in (case ret out of None \<Rightarrow> out | Some e \<Rightarrow> out\<lparr>resp := httpError (resp out) e\<rparr>)))"
proof -
  have gate: "makeHttpHandler APIVERSION enableCors handlerFunc w r =
      returns None
        (http_Error (versionError (resolveVersion APIVERSION r) APIVERSION)
           StatusNotFound (if enableCors then writeCorsHeaders w else w)) [] []"
    if "GreaterThan (resolveVersion APIVERSION r) APIVERSION"
    using that by (simp add: makeHttpHandler_def Let_def)
  have st: "status (http_Error m StatusNotFound (if enableCors then writeCorsHeaders w else w))
      = Some 404" if "status w = None" for m
    using that by (simp add: status_http_Error status_writeCorsHeaders StatusNotFound_def)
  have dflt: "resolveVersion APIVERSION r = APIVERSION" if "Vars_get (Vars r) ''version'' = []"
    using that by (simp add: resolveVersion_def)
  show ?thesis
    using gate st dflt
    by (simp add: Let_def not_GreaterThan_self returns_def makeHttpHandler_def)
qed

theorem makeHttpHandler_version_gate_witness:
  "GreaterThan (resolveVersion ''1.14'' (req0\<lparr>Vars := Some [(''version'', ''1.15''), (''name'', ''c1'')]\<rparr>))
     ''1.14'' \<and>
   status newResponseWriter = None \<and>
   status (resp (makeHttpHandler ''1.14'' True (postContainersStop ext0 eng0) newResponseWriter
     (req0\<lparr>Vars := Some [(''version'', ''1.15''), (''name'', ''c1'')]\<rparr>))) = Some 404 \<and>
   ran (makeHttpHandler ''1.14'' True (postContainersStop ext0 eng0) newResponseWriter
     (req0\<lparr>Vars := Some [(''version'', ''1.15''), (''name'', ''c1'')]\<rparr>)) = [] \<and>
   Vars_get (Vars req0) ''version'' = [] \<and>
   resolveVersion ''1.14'' req0 = ''1.14'' \<and>
   map Name (ran (makeHttpHandler ''1.14'' True (postContainersStop ext0 eng0) newResponseWriter req0))
     = [''stop'']"
proof -
  have h1: "GreaterThan
      (resolveVersion ''1.14'' (req0\<lparr>Vars := Some [(''version'', ''1.15''), (''name'', ''c1'')]\<rparr>))
      ''1.14''"
    by code_simp
  have h2: "status newResponseWriter = None"
    by (simp add: newResponseWriter_def)
  have h3: "Vars_get (Vars req0) ''version'' = []"
    by (simp add: req0_def Vars_get_def)
  have r: "map Name (ran (makeHttpHandler ''1.14'' True (postContainersStop ext0 eng0)
      newResponseWriter req0)) = [''stop'']"
    by code_simp
  have a: "status (resp (makeHttpHandler ''1.14'' True (postContainersStop ext0 eng0)
      newResponseWriter (req0\<lparr>Vars := Some [(''version'', ''1.15''), (''name'', ''c1'')]\<rparr>)))
      = Some 404 \<and>
    ran (makeHttpHandler ''1.14'' True (postContainersStop ext0 eng0) newResponseWriter
      (req0\<lparr>Vars := Some [(''version'', ''1.15''), (''name'', ''c1'')]\<rparr>)) = []"
    using h1 h2
      makeHttpHandler_version_gate [of "''1.14''"
        "req0\<lparr>Vars := Some [(''version'', ''1.15''), (''name'', ''c1'')]\<rparr>" True
        "postContainersStop ext0 eng0" newResponseWriter]
    unfolding Let_def by blast
  have b: "resolveVersion ''1.14'' req0 = ''1.14''"
    using h3
      makeHttpHandler_version_gate [of "''1.14''" req0 True
        "postContainersStop ext0 eng0" newResponseWriter]
    by blast
  from h1 h2 h3 a b r show ?thesis
    by blast
qed

section \<open>The error-to-status table\<close>

text \<open>
  C2, as amended. The status of a job error is the first match of its message in the
  table "No such" 404, "Bad parameter" 400, "Conflict" 409, "Impossible" 406,
  "Wrong login/password" 401, "hasn't been activated" 403, in this order, and 500 when
  no entry matches; \<open>httpError\<close> commits that status on a response whose status is not
  yet committed, and writes the message and a newline to the body.
\<close>

theorem httpError_first_match:
  "httpError_statusCode msg = first_match code_status_table msg \<and>
   (status w = None \<longrightarrow>
      status (httpError w msg) = Some (first_match code_status_table msg)) \<and>
   body (httpError w msg) = body w @ msg @ [CHR 0x0A]"
proof -
  have eq: "httpError_statusCode msg = first_match code_status_table msg"
    by (simp add: httpError_statusCode_def code_status_table_def Status_defs)
  show ?thesis
    by (simp add: eq [symmetric] httpError_def status_http_Error body_http_Error)
qed

theorem httpError_first_match_witness:
  "status newResponseWriter = None \<and>
   status (httpError newResponseWriter ''No such container: X'') = Some 404 \<and>
   status (httpError newResponseWriter ''Conflict: name in use'') = Some 409 \<and>
   status (httpError newResponseWriter ''exit status 1'') = Some 500"
proof -
  have h: "status newResponseWriter = None"
    by (simp add: newResponseWriter_def)
  have t: "first_match code_status_table ''No such container: X'' = 404"
          "first_match code_status_table ''Conflict: name in use'' = 409"
          "first_match code_status_table ''exit status 1'' = 500"
    by (simp_all add: code_status_table_def)
  show ?thesis
    using h httpError_first_match [of "''No such container: X''" newResponseWriter]
      httpError_first_match [of "''Conflict: name in use''" newResponseWriter]
      httpError_first_match [of "''exit status 1''" newResponseWriter]
    by (simp add: t)
qed

text \<open>
  C2 as stated puts "Conflict" before "Bad parameter". A message that contains both
  (and not "No such") gets 409 from the table in that order and 400 from the code.
\<close>

theorem httpError_spec_order_counterexample:
  "Contains ''Conflict: Bad parameter'' ''Conflict'' \<and>
   Contains ''Conflict: Bad parameter'' ''Bad parameter'' \<and>
   first_match spec_status_table ''Conflict: Bad parameter'' = 409 \<and>
   httpError_statusCode ''Conflict: Bad parameter'' = 400 \<and>
   status (httpError newResponseWriter ''Conflict: Bad parameter'') = Some 400"
  by (simp add: spec_status_table_def httpError_statusCode_def Status_defs httpError_def
      http_Error_def Write_def WriteHeader_def Header_Set_def newResponseWriter_def)

section \<open>Start and stop of a container that is already there\<close>

lemma makeHttpHandler_call:
  "\<not> GreaterThan (resolveVersion APIVERSION r) APIVERSION \<Longrightarrow>
   makeHttpHandler APIVERSION enableCors handlerFunc w r =
     (let out = handlerFunc (resolveVersion APIVERSION r)
                  (if enableCors then writeCorsHeaders w else w) r (Vars r)
      in (case ret out of None \<Rightarrow> out | Some e \<Rightarrow> out\<lparr>resp := httpError (resp out) e\<rparr>))"
  by (simp add: makeHttpHandler_def Let_def)

lemma status_WriteHeader: "status w = None \<Longrightarrow> status (WriteHeader c w) = Some c"
  by (simp add: WriteHeader_def)

lemma status_httpError:
  "status w = None \<Longrightarrow> status (httpError w e) = Some (httpError_statusCode e)"
  by (simp add: httpError_def status_http_Error)

lemma ran_runOrNotModified: "ran (runOrNotModified eng m j w) = [j]"
  by (simp add: runOrNotModified_def returns_def split: option.splits)

lemma postContainersStart_cases:
  "ran (postContainersStart ext eng version w r vars) = [] \<or>
   (\<exists>j. postContainersStart ext eng version w r vars =
      runOrNotModified eng ''Container already started'' j w)"
  unfolding postContainersStart_def Let_def
  by (auto simp: ran_returns split: sum.splits)

lemma postContainersStop_cases:
  "ran (postContainersStop ext eng version w r vars) = [] \<or>
   (\<exists>j. postContainersStop ext eng version w r vars =
      runOrNotModified eng ''Container already stopped'' j w)"
  unfolding postContainersStop_def Let_def
  by (auto simp: ran_returns split: option.splits)

lemma postContainersStart_ran:
  assumes "ran (postContainersStart ext eng version w r vars) = [job]"
  shows "postContainersStart ext eng version w r vars =
     runOrNotModified eng ''Container already started'' job w"
  using assms postContainersStart_cases [of ext eng version w r vars]
  by (auto simp: ran_runOrNotModified)

lemma postContainersStop_ran:
  assumes "ran (postContainersStop ext eng version w r vars) = [job]"
  shows "postContainersStop ext eng version w r vars =
     runOrNotModified eng ''Container already stopped'' job w"
  using assms postContainersStop_cases [of ext eng version w r vars]
  by (auto simp: ran_runOrNotModified)

lemma runOrNotModified_outcome:
  "(jerr (eng job) = Some already \<longrightarrow>
      ret (runOrNotModified eng already job w) = None \<and>
      resp (runOrNotModified eng already job w) = WriteHeader StatusNotModified w) \<and>
   (\<forall>e. jerr (eng job) = Some e \<and> e \<noteq> already \<longrightarrow>
      ret (runOrNotModified eng already job w) = Some e \<and>
      resp (runOrNotModified eng already job w) = w) \<and>
   (jerr (eng job) = None \<longrightarrow>
      ret (runOrNotModified eng already job w) = None \<and>
      resp (runOrNotModified eng already job w) = WriteHeader StatusNoContent w)"
  by (cases "jerr (eng job)") (simp_all add: runOrNotModified_def returns_def)

lemma served_runOrNotModified:
  assumes "\<not> GreaterThan (resolveVersion APIVERSION r) APIVERSION"
    and "\<And>version w. handlerFunc version w r (Vars r) = runOrNotModified eng already job w
           \<or> ran (handlerFunc version w r (Vars r)) \<noteq> [job]"
    and "ran (makeHttpHandler APIVERSION enableCors handlerFunc w r) = [job]"
    and "status w = None"
  shows "status (resp (makeHttpHandler APIVERSION enableCors handlerFunc w r)) =
     Some (case jerr (eng job) of
             None \<Rightarrow> StatusNoContent
           | Some e \<Rightarrow> if e = already then StatusNotModified else httpError_statusCode e)"
proof -
  define w1 where "w1 = (if enableCors then writeCorsHeaders w else w)"
  define out where "out = handlerFunc (resolveVersion APIVERSION r) w1 r (Vars r)"
  have m: "makeHttpHandler APIVERSION enableCors handlerFunc w r =
      (case ret out of None \<Rightarrow> out | Some e \<Rightarrow> out\<lparr>resp := httpError (resp out) e\<rparr>)"
    using makeHttpHandler_call [OF assms(1), of enableCors handlerFunc w]
    unfolding out_def w1_def Let_def .
  have "ran out = [job]"
    using assms(3) unfolding m by (cases "ret out") simp_all
  with assms(2) [of "resolveVersion APIVERSION r" w1]
  have o: "out = runOrNotModified eng already job w1"
    by (simp add: out_def)
  have s1: "status w1 = None"
    using assms(4) by (simp add: w1_def status_writeCorsHeaders)
  show ?thesis
    unfolding m o
    by (cases "jerr (eng job)")
       (simp_all add: runOrNotModified_def returns_def status_WriteHeader [OF s1]
          status_httpError [OF s1])
qed

text \<open>
  C10. When \<^verbatim>\<open>postContainersStart\<close> (\<^verbatim>\<open>postContainersStop\<close>) has run its job: a job error
  whose message equals "Container already started" ("Container already stopped")
  makes the handler write status 304 and return nil; any other job error is returned
  unchanged and the response is left alone; success writes status 204. Served through
  \<^verbatim>\<open>makeHttpHandler\<close> on a fresh response, the status is 304 for the equal message, the
  status of the substring table for any other error, and 204 for success.
\<close>

theorem start_stop_not_modified:
  "(ran (postContainersStart ext eng version w r vars) = [job] \<longrightarrow>
      (let out = postContainersStart ext eng version w r vars
       in (jerr (eng job) = Some ''Container already started'' \<longrightarrow>
             ret out = None \<and> resp out = WriteHeader StatusNotModified w) \<and>
          (\<forall>e. jerr (eng job) = Some e \<and> e \<noteq> ''Container already started'' \<longrightarrow>
             ret out = Some e \<and> resp out = w) \<and>
          (jerr (eng job) = None \<longrightarrow>
             ret out = None \<and> resp out = WriteHeader StatusNoContent w))) \<and>
   (ran (postContainersStop ext eng version w r vars) = [job] \<longrightarrow>
      (let out = postContainersStop ext eng version w r vars
       in (jerr (eng job) = Some ''Container already stopped'' \<longrightarrow>
             ret out = None \<and> resp out = WriteHeader StatusNotModified w) \<and>
          (\<forall>e. jerr (eng job) = Some e \<and> e \<noteq> ''Container already stopped'' \<longrightarrow>
             ret out = Some e \<and> resp out = w) \<and>
          (jerr (eng job) = None \<longrightarrow>
             ret out = None \<and> resp out = WriteHeader StatusNoContent w))) \<and>
   (\<not> GreaterThan (resolveVersion APIVERSION r) APIVERSION \<and> status w = None \<and>
    ran (makeHttpHandler APIVERSION enableCors (postContainersStart ext eng) w r) = [job] \<longrightarrow>
      status (resp (makeHttpHandler APIVERSION enableCors (postContainersStart ext eng) w r)) =
        Some (case jerr (eng job) of
                None \<Rightarrow> StatusNoContent
              | Some e \<Rightarrow> if e = ''Container already started'' then StatusNotModified
                          else httpError_statusCode e)) \<and>
   (\<not> GreaterThan (resolveVersion APIVERSION r) APIVERSION \<and> status w = None \<and>
    ran (makeHttpHandler APIVERSION enableCors (postContainersStop ext eng) w r) = [job] \<longrightarrow>
      status (resp (makeHttpHandler APIVERSION enableCors (postContainersStop ext eng) w r)) =
        Some (case jerr (eng job) of
                None \<Rightarrow> StatusNoContent
              | Some e \<Rightarrow> if e = ''Container already stopped'' then StatusNotModified
                          else httpError_statusCode e))"
proof (intro conjI impI)
  assume a: "ran (postContainersStart ext eng version w r vars) = [job]"
  show "let out = postContainersStart ext eng version w r vars
       in (jerr (eng job) = Some ''Container already started'' \<longrightarrow>
             ret out = None \<and> resp out = WriteHeader StatusNotModified w) \<and>
          (\<forall>e. jerr (eng job) = Some e \<and> e \<noteq> ''Container already started'' \<longrightarrow>
             ret out = Some e \<and> resp out = w) \<and>
          (jerr (eng job) = None \<longrightarrow>
             ret out = None \<and> resp out = WriteHeader StatusNoContent w)"
    unfolding Let_def postContainersStart_ran [OF a]
    by (rule runOrNotModified_outcome)
next
  assume a: "ran (postContainersStop ext eng version w r vars) = [job]"
  show "let out = postContainersStop ext eng version w r vars
       in (jerr (eng job) = Some ''Container already stopped'' \<longrightarrow>
             ret out = None \<and> resp out = WriteHeader StatusNotModified w) \<and>
          (\<forall>e. jerr (eng job) = Some e \<and> e \<noteq> ''Container already stopped'' \<longrightarrow>
             ret out = Some e \<and> resp out = w) \<and>
          (jerr (eng job) = None \<longrightarrow>
             ret out = None \<and> resp out = WriteHeader StatusNoContent w)"
    unfolding Let_def postContainersStop_ran [OF a]
    by (rule runOrNotModified_outcome)
next
  assume a: "\<not> GreaterThan (resolveVersion APIVERSION r) APIVERSION \<and> status w = None \<and>
    ran (makeHttpHandler APIVERSION enableCors (postContainersStart ext eng) w r) = [job]"
  have h: "postContainersStart ext eng v w' r (Vars r) =
        runOrNotModified eng ''Container already started'' job w'
      \<or> ran (postContainersStart ext eng v w' r (Vars r)) \<noteq> [job]" for v w'
    using postContainersStart_ran [of ext eng v w' r "Vars r" job] by blast
  from a show "status (resp (makeHttpHandler APIVERSION enableCors (postContainersStart ext eng) w r)) =
        Some (case jerr (eng job) of
                None \<Rightarrow> StatusNoContent
              | Some e \<Rightarrow> if e = ''Container already started'' then StatusNotModified
                          else httpError_statusCode e)"
    by (intro served_runOrNotModified h) simp_all
next
  assume a: "\<not> GreaterThan (resolveVersion APIVERSION r) APIVERSION \<and> status w = None \<and>
    ran (makeHttpHandler APIVERSION enableCors (postContainersStop ext eng) w r) = [job]"
  have h: "postContainersStop ext eng v w' r (Vars r) =
        runOrNotModified eng ''Container already stopped'' job w'
      \<or> ran (postContainersStop ext eng v w' r (Vars r)) \<noteq> [job]" for v w'
    using postContainersStop_ran [of ext eng v w' r "Vars r" job] by blast
  from a show "status (resp (makeHttpHandler APIVERSION enableCors (postContainersStop ext eng) w r)) =
        Some (case jerr (eng job) of
                None \<Rightarrow> StatusNoContent
              | Some e \<Rightarrow> if e = ''Container already stopped'' then StatusNotModified
                          else httpError_statusCode e)"
    by (intro served_runOrNotModified h) simp_all
qed

theorem start_stop_not_modified_witness:
  "ran (postContainersStop ext0 eng0 ''1.14'' newResponseWriter req0 (Vars req0)) =
     [Setenv ''t'' [] (newJob ''stop'' [''c1''])] \<and>
   jerr (eng0 (Setenv ''t'' [] (newJob ''stop'' [''c1'']))) = Some ''Container already stopped'' \<and>
   ret (postContainersStop ext0 eng0 ''1.14'' newResponseWriter req0 (Vars req0)) = None \<and>
   status (resp (makeHttpHandler ''1.14'' False (postContainersStop ext0 eng0)
     newResponseWriter req0)) = Some 304 \<and>
   ran (postContainersStart ext0 eng0 ''1.14'' newResponseWriter req0 (Vars req0)) =
     [newJob ''start'' [''c1'']] \<and>
   jerr (eng0 (newJob ''start'' [''c1''])) = Some ''No such container: c1'' \<and>
   ret (postContainersStart ext0 eng0 ''1.14'' newResponseWriter req0 (Vars req0)) =
     Some ''No such container: c1'' \<and>
   status (resp (makeHttpHandler ''1.14'' False (postContainersStart ext0 eng0)
     newResponseWriter req0)) = Some 404"
proof -
  let ?stop = "Setenv ''t'' [] (newJob ''stop'' [''c1''])"
  let ?start = "newJob ''start'' [''c1'']"
  have r1: "ran (postContainersStop ext0 eng0 ''1.14'' newResponseWriter req0 (Vars req0)) = [?stop]"
    by code_simp
  have e1: "jerr (eng0 ?stop) = Some ''Container already stopped''"
    by code_simp
  have r2: "ran (postContainersStart ext0 eng0 ''1.14'' newResponseWriter req0 (Vars req0)) = [?start]"
    by code_simp
  have e2: "jerr (eng0 ?start) = Some ''No such container: c1''"
    by code_simp
  have ne: "''No such container: c1'' \<noteq> ''Container already started''"
    by simp
  have g: "\<not> GreaterThan (resolveVersion ''1.14'' req0) ''1.14''"
    by code_simp
  have s0: "status newResponseWriter = None"
    by (simp add: newResponseWriter_def)
  have m1: "ran (makeHttpHandler ''1.14'' False (postContainersStop ext0 eng0)
      newResponseWriter req0) = [?stop]"
    by code_simp
  have m2: "ran (makeHttpHandler ''1.14'' False (postContainersStart ext0 eng0)
      newResponseWriter req0) = [?start]"
    by code_simp
  have c2: "httpError_statusCode ''No such container: c1'' = 404"
    by code_simp
  note t1 = start_stop_not_modified [of ext0 eng0 "''1.14''" newResponseWriter req0 "Vars req0"
      ?stop "''1.14''" False]
  note t2 = start_stop_not_modified [of ext0 eng0 "''1.14''" newResponseWriter req0 "Vars req0"
      ?start "''1.14''" False]
  have a: "ret (postContainersStop ext0 eng0 ''1.14'' newResponseWriter req0 (Vars req0)) = None"
    using t1 r1 e1 by (simp add: Let_def)
  have b: "status (resp (makeHttpHandler ''1.14'' False (postContainersStop ext0 eng0)
      newResponseWriter req0)) = Some 304"
    using t1 g s0 m1 e1 by (simp add: StatusNotModified_def)
  have c: "ret (postContainersStart ext0 eng0 ''1.14'' newResponseWriter req0 (Vars req0)) =
      Some ''No such container: c1''"
    using t2 r2 e2 ne by (simp add: Let_def)
  have d: "status (resp (makeHttpHandler ''1.14'' False (postContainersStart ext0 eng0)
      newResponseWriter req0)) = Some 404"
    using t2 g s0 m2 e2 c2 by simp
  show ?thesis
    by (simp only: r1 e1 a b r2 e2 c d simp_thms)
qed

section \<open>Failure of a streaming job\<close>

lemma Name_Setenv:
  "Name (Setenv k v job) = Name job"
  "Name (SetenvBool k b job) = Name job"
  "Name (SetenvJson k j job) = Name job"
  "Name (newJob n args) = n"
  by (simp_all add: Setenv_def SetenvBool_def SetenvJson_def newJob_def)

lemma runStreaming_ran: "ran (runStreaming ext eng json job w) = [job]"
  by (simp add: runStreaming_def returns_def Let_def split: option.splits)

lemma runStreaming_failure:
  assumes "jerr (eng job) = Some e"
  shows "runStreaming ext eng json job w =
     (if Used (eng job)
      then returns None
             (Write (FormatError ext json e) (Write_all (stdout_writes (eng job)) w))
             [Name job] [job]
      else returns (Some e) w [Name job] [job])"
  using assms by (simp add: runStreaming_def Let_def Used_def Write_all_def)

lemma postImagesPush_cases:
  "ran (postImagesPush ext eng version w r vars) = [] \<or>
   (\<exists>j. postImagesPush ext eng version w r vars =
     runStreaming ext eng (GreaterThan version ''1.0'') j
       (if GreaterThan version ''1.0'' then streamJSON w else w))"
proof (cases vars)
  case None
  then show ?thesis by (simp add: postImagesPush_def ran_returns)
next
  case vars: (Some vs)
  show ?thesis
  proof (cases "parseForm r")
    case (Some e)
    with vars show ?thesis by (simp add: postImagesPush_def ran_returns)
  next
    case None
    define A where "A = (if Header_Get r ''X-Registry-Auth'' \<noteq> []
                        then Inr (case decodeAuth ext (Header_Get r ''X-Registry-Auth'') of
                                    None \<Rightarrow> emptyAuthConfig
                                  | Some a \<Rightarrow> a)
                        else decodeBody ext (Body r))"
    show ?thesis
    proof (cases A)
      case (Inl e)
      then have "ran (postImagesPush ext eng version w r vars) = []"
        unfolding postImagesPush_def Let_def A_def using vars None
        by (simp add: ran_returns split del: if_split)
      then show ?thesis ..
    next
      case (Inr a)
      then have "\<exists>j. postImagesPush ext eng version w r vars =
         runStreaming ext eng (GreaterThan version ''1.0'') j
           (if GreaterThan version ''1.0'' then streamJSON w else w)"
        unfolding postImagesPush_def Let_def A_def using vars None
        apply (simp split del: if_split)
        apply (rule exI)
        apply (rule refl)
        done
      then show ?thesis ..
    qed
  qed
qed

lemma postImagesCreate_cases:
  "ran (postImagesCreate ext eng version w r vars) = [] \<or>
   (\<exists>j. postImagesCreate ext eng version w r vars =
     runStreaming ext eng (GreaterThan version ''1.0'') j
       (if GreaterThan version ''1.0'' then streamJSON w else w))"
proof (cases "parseForm r")
  case (Some e)
  then show ?thesis by (simp add: postImagesCreate_def ran_returns)
next
  case None
  have "\<exists>j. postImagesCreate ext eng version w r vars =
     runStreaming ext eng (GreaterThan version ''1.0'') j
       (if GreaterThan version ''1.0'' then streamJSON w else w)"
    unfolding postImagesCreate_def Let_def None option.case
    by (rule exI, rule refl)
  then show ?thesis ..
qed

lemma postBuild_cases:
  "ran (postBuild ext eng version w r vars) = [] \<or>
   (\<exists>j. postBuild ext eng version w r vars =
     runStreaming ext eng (GreaterThanOrEqualTo version ''1.8'') j
       (if GreaterThanOrEqualTo version ''1.8'' then streamJSON w else w))"
proof (cases "LessThan version ''1.3''")
  case True
  then show ?thesis by (simp add: postBuild_def ran_returns)
next
  case False
  then have "\<exists>j. postBuild ext eng version w r vars =
     runStreaming ext eng (GreaterThanOrEqualTo version ''1.8'') j
       (if GreaterThanOrEqualTo version ''1.8'' then streamJSON w else w)"
    unfolding postBuild_def Let_def
    by (simp only: if_False) (rule exI, rule refl)
  then show ?thesis ..
qed

lemma ran_runStreaming_eq:
  assumes "ran out = [job]"
    and "ran out = [] \<or> (\<exists>j. out = runStreaming ext eng json j w')"
  shows "out = runStreaming ext eng json job w'"
  using assms by (auto simp: runStreaming_ran)

lemma status_streamJSON: "status (streamJSON w) = status w"
  by (simp add: streamJSON_def Header_Set_def)

lemma body_streamJSON: "body (streamJSON w) = body w"
  by (simp add: streamJSON_def Header_Set_def)

lemma body_Write: "body (Write p w) = body w @ p"
  by (simp add: Write_def WriteHeader_def)

lemma runStreaming_reports:
  assumes "jerr (eng job) = Some e"
  shows "(ret (runStreaming ext eng json job w') = Some e \<longleftrightarrow> \<not> Used (eng job)) \<and>
     (\<not> Used (eng job) \<longrightarrow> resp (runStreaming ext eng json job w') = w') \<and>
     (Used (eng job) \<longrightarrow>
        ret (runStreaming ext eng json job w') = None \<and>
        resp (runStreaming ext eng json job w') =
          Write (FormatError ext json e) (Write_all (stdout_writes (eng job)) w'))"
  unfolding runStreaming_failure [of eng job e, OF assms]
  by (simp add: returns_def)


lemma postImagesPush_runs:
  assumes "vars \<noteq> None" and "parseForm r = None"
    and "Header_Get r ''X-Registry-Auth'' \<noteq> [] \<or> (\<exists>a. decodeBody ext (Body r) = Inr a)"
  shows "\<exists>job. postImagesPush ext eng version w r vars =
             runStreaming ext eng (GreaterThan version ''1.0'') job
               (if GreaterThan version ''1.0'' then streamJSON w else w) \<and>
           Name job = ''push''"
proof -
  from assms(1) obtain vs where vs: "vars = Some vs" by blast
  define A where "A = (if Header_Get r ''X-Registry-Auth'' \<noteq> []
                      then Inr (case decodeAuth ext (Header_Get r ''X-Registry-Auth'') of
                                  None \<Rightarrow> emptyAuthConfig
                                | Some a \<Rightarrow> a)
                      else decodeBody ext (Body r))"
  from assms(3) obtain a where "A = Inr a"
    by (cases "Header_Get r ''X-Registry-Auth'' = []") (auto simp: A_def)
  then show ?thesis
    unfolding postImagesPush_def Let_def A_def using vs assms(2)
    apply (simp split del: if_split)
    apply (rule exI)
    apply (rule conjI)
     apply (rule refl)
    apply (simp add: Name_Setenv if_distrib [of Name] split del: if_split cong: if_cong)
    done
qed

lemma postImagesCreate_runs:
  assumes "parseForm r = None"
  shows "\<exists>job. postImagesCreate ext eng version w r vars =
             runStreaming ext eng (GreaterThan version ''1.0'') job
               (if GreaterThan version ''1.0'' then streamJSON w else w) \<and>
           Name job = (if Form_Get r ''fromImage'' \<noteq> [] then ''pull'' else ''import'')"
  unfolding postImagesCreate_def Let_def assms option.case
  apply (rule exI)
  apply (rule conjI)
   apply (rule refl)
  apply (simp add: Name_Setenv if_distrib [of Name] split del: if_split cong: if_cong)
  done

lemma postBuild_runs:
  assumes "\<not> LessThan version ''1.3''"
  shows "\<exists>job. postBuild ext eng version w r vars =
             runStreaming ext eng (GreaterThanOrEqualTo version ''1.8'') job
               (if GreaterThanOrEqualTo version ''1.8'' then streamJSON w else w) \<and>
           Name job = ''build''"
  unfolding postBuild_def Let_def using assms
  apply (simp only: if_False)
  apply (rule exI)
  apply (rule conjI)
   apply (rule refl)
  apply (simp add: Name_Setenv if_distrib [of Name] split del: if_split cong: if_cong)
  done

lemma runStreaming_report_body:
  assumes "jerr (eng job) = Some e"
    and "status w' = status w" and "body w' = body w"
  shows "(ret (runStreaming ext eng json job w') = Some e \<longleftrightarrow> \<not> Used (eng job)) \<and>
         (\<not> Used (eng job) \<longrightarrow>
            status (resp (runStreaming ext eng json job w')) = status w \<and>
            body (resp (runStreaming ext eng json job w')) = body w) \<and>
         (Used (eng job) \<longrightarrow>
            ret (runStreaming ext eng json job w') = None \<and>
            body (resp (runStreaming ext eng json job w')) =
              body w @ concat (stdout_writes (eng job)) @ FormatError ext json e)"
  using runStreaming_reports [of eng job e ext json w', OF assms(1)]
  by (simp add: assms(2,3) body_Write body_Write_all)

lemma streamJSON_keeps:
  "status (if json then streamJSON w else w) = status w"
  "body (if json then streamJSON w else w) = body w"
  by (simp_all add: status_streamJSON body_streamJSON)

lemma ran_streaming_report:
  assumes "(out, json) = (postImagesPush ext eng version w r vars, GreaterThan version ''1.0'') \<or>
           (out, json) = (postImagesCreate ext eng version w r vars, GreaterThan version ''1.0'') \<or>
           (out, json) = (postBuild ext eng version w r vars, GreaterThanOrEqualTo version ''1.8'')"
    and "ran out = [job]"
    and "jerr (eng job) = Some e"
  shows "(ret out = Some e \<longleftrightarrow> \<not> Used (eng job)) \<and>
         (\<not> Used (eng job) \<longrightarrow> status (resp out) = status w \<and> body (resp out) = body w) \<and>
         (Used (eng job) \<longrightarrow>
            ret out = None \<and>
            body (resp out) =
              body w @ concat (stdout_writes (eng job)) @ FormatError ext json e)"
proof -
  define w' where "w' = (if json then streamJSON w else w)"
  have w': "status w' = status w" "body w' = body w"
    by (simp_all add: w'_def streamJSON_keeps)
  have "ran out = [] \<or> (\<exists>j. out = runStreaming ext eng json j w')"
    using assms(1) postImagesPush_cases [of ext eng version w r vars]
      postImagesCreate_cases [of ext eng version w r vars]
      postBuild_cases [of ext eng version w r vars]
    unfolding w'_def by auto
  with assms(2) have out: "out = runStreaming ext eng json job w'"
    by (rule ran_runStreaming_eq)
  show ?thesis
    unfolding out using assms(3) w' by (rule runStreaming_report_body)
qed

lemma streaming_runs_and_reports:
  assumes "\<exists>job. out = runStreaming ext eng json job (if json then streamJSON w else w) \<and>
             Name job = n"
  shows "\<exists>job. ran out = [job] \<and> Name job = n \<and>
           (\<forall>e. jerr (eng job) = Some e \<longrightarrow>
              (ret out = Some e \<longleftrightarrow> \<not> Used (eng job)) \<and>
              (\<not> Used (eng job) \<longrightarrow>
                 status (resp out) = status w \<and> body (resp out) = body w) \<and>
              (Used (eng job) \<longrightarrow>
                 ret out = None \<and>
                 body (resp out) =
                   body w @ concat (stdout_writes (eng job)) @ FormatError ext json e))"
proof -
  from assms obtain job
    where out: "out = runStreaming ext eng json job (if json then streamJSON w else w)"
      and n: "Name job = n"
    by blast
  have r: "ran out = [job]"
    by (simp add: out runStreaming_ran)
  have rep: "(ret out = Some e \<longleftrightarrow> \<not> Used (eng job)) \<and>
      (\<not> Used (eng job) \<longrightarrow> status (resp out) = status w \<and> body (resp out) = body w) \<and>
      (Used (eng job) \<longrightarrow>
         ret out = None \<and>
         body (resp out) =
           body w @ concat (stdout_writes (eng job)) @ FormatError ext json e)"
    if "jerr (eng job) = Some e" for e
    unfolding out using that streamJSON_keeps [of json w] by (rule runStreaming_report_body)
  from r n rep show ?thesis
    by blast
qed

text \<open>
  C7. Push (with route variables, a form that parses, and a registry-auth header or a
  body that decodes), pull/import (with a form that parses) and build (at version 1.3
  or above) each construct one job and run it. When that job fails, the handler
  returns the job's error exactly when the job made no write on its standard stream,
  and then the response has no status committed and no byte written by the handler;
  when the job did write, the handler returns nil and the response body is what was
  there, then the job's output, then \<^verbatim>\<open>FormatError\<close> of the error (from the stream
  formatter made with \<open>json\<close>: version above 1.0 for push and pull/import, version at
  least 1.8 for build). The same holds of whatever job one of the three handlers has
  run.
\<close>

theorem streaming_failure_report:
  "(vars \<noteq> None \<and> parseForm r = None \<and>
    (Header_Get r ''X-Registry-Auth'' \<noteq> [] \<or> (\<exists>a. decodeBody ext (Body r) = Inr a)) \<longrightarrow>
      (\<exists>job. ran (postImagesPush ext eng version w r vars) = [job] \<and> Name job = ''push'' \<and>
         (\<forall>e. jerr (eng job) = Some e \<longrightarrow>
            (ret (postImagesPush ext eng version w r vars) = Some e \<longleftrightarrow> \<not> Used (eng job)) \<and>
            (\<not> Used (eng job) \<longrightarrow>
               status (resp (postImagesPush ext eng version w r vars)) = status w \<and>
               body (resp (postImagesPush ext eng version w r vars)) = body w) \<and>
            (Used (eng job) \<longrightarrow>
               ret (postImagesPush ext eng version w r vars) = None \<and>
               body (resp (postImagesPush ext eng version w r vars)) =
                 body w @ concat (stdout_writes (eng job)) @
                 FormatError ext (GreaterThan version ''1.0'') e)))) \<and>
   (parseForm r = None \<longrightarrow>
      (\<exists>job. ran (postImagesCreate ext eng version w r vars) = [job] \<and>
         Name job = (if Form_Get r ''fromImage'' \<noteq> [] then ''pull'' else ''import'') \<and>
         (\<forall>e. jerr (eng job) = Some e \<longrightarrow>
            (ret (postImagesCreate ext eng version w r vars) = Some e \<longleftrightarrow> \<not> Used (eng job)) \<and>
            (\<not> Used (eng job) \<longrightarrow>
               status (resp (postImagesCreate ext eng version w r vars)) = status w \<and>
               body (resp (postImagesCreate ext eng version w r vars)) = body w) \<and>
            (Used (eng job) \<longrightarrow>
               ret (postImagesCreate ext eng version w r vars) = None \<and>
               body (resp (postImagesCreate ext eng version w r vars)) =
                 body w @ concat (stdout_writes (eng job)) @
                 FormatError ext (GreaterThan version ''1.0'') e)))) \<and>
   (\<not> LessThan version ''1.3'' \<longrightarrow>
      (\<exists>job. ran (postBuild ext eng version w r vars) = [job] \<and> Name job = ''build'' \<and>
         (\<forall>e. jerr (eng job) = Some e \<longrightarrow>
            (ret (postBuild ext eng version w r vars) = Some e \<longleftrightarrow> \<not> Used (eng job)) \<and>
            (\<not> Used (eng job) \<longrightarrow>
               status (resp (postBuild ext eng version w r vars)) = status w \<and>
               body (resp (postBuild ext eng version w r vars)) = body w) \<and>
            (Used (eng job) \<longrightarrow>
               ret (postBuild ext eng version w r vars) = None \<and>
               body (resp (postBuild ext eng version w r vars)) =
                 body w @ concat (stdout_writes (eng job)) @
                 FormatError ext (GreaterThanOrEqualTo version ''1.8'') e)))) \<and>
   (((out, json) = (postImagesPush ext eng version w r vars, GreaterThan version ''1.0'') \<or>
     (out, json) = (postImagesCreate ext eng version w r vars, GreaterThan version ''1.0'') \<or>
     (out, json) = (postBuild ext eng version w r vars, GreaterThanOrEqualTo version ''1.8'')) \<and>
    ran out = [job] \<and> jerr (eng job) = Some e \<longrightarrow>
      (ret out = Some e \<longleftrightarrow> \<not> Used (eng job)) \<and>
      (\<not> Used (eng job) \<longrightarrow> status (resp out) = status w \<and> body (resp out) = body w) \<and>
      (Used (eng job) \<longrightarrow>
         ret out = None \<and>
         body (resp out) =
           body w @ concat (stdout_writes (eng job)) @ FormatError ext json e))"
  (is "(?hp \<longrightarrow> ?cp) \<and> (?hc \<longrightarrow> ?cc) \<and> (?hb \<longrightarrow> ?cb) \<and> (?hr \<longrightarrow> ?cr)")
proof -
  have p: "?hp \<longrightarrow> ?cp"
  proof (rule impI)
    assume ?hp
    then have "\<exists>job. postImagesPush ext eng version w r vars =
               runStreaming ext eng (GreaterThan version ''1.0'') job
                 (if GreaterThan version ''1.0'' then streamJSON w else w) \<and>
             Name job = ''push''"
      by (intro postImagesPush_runs) simp_all
    then show ?cp
      by (rule streaming_runs_and_reports)
  qed
  have c: "?hc \<longrightarrow> ?cc"
  proof (rule impI)
    assume ?hc
    then have "\<exists>job. postImagesCreate ext eng version w r vars =
               runStreaming ext eng (GreaterThan version ''1.0'') job
                 (if GreaterThan version ''1.0'' then streamJSON w else w) \<and>
             Name job = (if Form_Get r ''fromImage'' \<noteq> [] then ''pull'' else ''import'')"
      by (rule postImagesCreate_runs)
    then show ?cc
      by (rule streaming_runs_and_reports)
  qed
  have b: "?hb \<longrightarrow> ?cb"
  proof (rule impI)
    assume ?hb
    then have "\<exists>job. postBuild ext eng version w r vars =
               runStreaming ext eng (GreaterThanOrEqualTo version ''1.8'') job
                 (if GreaterThanOrEqualTo version ''1.8'' then streamJSON w else w) \<and>
             Name job = ''build''"
      by (rule postBuild_runs)
    then show ?cb
      by (rule streaming_runs_and_reports)
  qed
  have r: "?hr \<longrightarrow> ?cr"
  proof (rule impI)
    assume a: ?hr
    show ?cr
    proof (rule ran_streaming_report)
      from a show "(out, json) =
          (postImagesPush ext eng version w r vars, GreaterThan version ''1.0'') \<or>
        (out, json) =
          (postImagesCreate ext eng version w r vars, GreaterThan version ''1.0'') \<or>
        (out, json) =
          (postBuild ext eng version w r vars, GreaterThanOrEqualTo version ''1.8'')"
        by (rule conjunct1)
      from a show "ran out = [job]" by simp
      from a show "jerr (eng job) = Some e" by simp
    qed
  qed
  from p c b r show ?thesis
    by (intro conjI)
qed

theorem streaming_failure_report_witness:
  "ran (postImagesPush ext0 eng0 ''1.14'' newResponseWriter
          (req0\<lparr>Header := [(''X-Registry-Auth'', [''ok''])]\<rparr>) (Vars req0)) =
     [SetenvBool ''json'' True (Setenv ''tag'' []
        (SetenvJson ''authConfig'' (JObject [(''username'', JString ''u'')])
           (SetenvJson ''metaHeaders'' (JObject []) (newJob ''push'' [''c1''])))) ] \<and>
   ret (postImagesPush ext0 eng0 ''1.14'' newResponseWriter
          (req0\<lparr>Header := [(''X-Registry-Auth'', [''ok''])]\<rparr>) (Vars req0)) = None \<and>
   body (resp (postImagesPush ext0 eng0 ''1.14'' newResponseWriter
          (req0\<lparr>Header := [(''X-Registry-Auth'', [''ok''])]\<rparr>) (Vars req0))) =
     ''{s}{error:denied}'' \<and>
   map Name (ran (postImagesCreate ext0 eng0 ''1.14'' newResponseWriter
          (req0\<lparr>Form := [(''fromImage'', [''bb:1''])]\<rparr>) (Vars req0))) = [''pull''] \<and>
   ret (postImagesCreate ext0 eng0 ''1.14'' newResponseWriter
          (req0\<lparr>Form := [(''fromImage'', [''bb:1''])]\<rparr>) (Vars req0)) = Some ''No such image'' \<and>
   status (resp (postImagesCreate ext0 eng0 ''1.14'' newResponseWriter
          (req0\<lparr>Form := [(''fromImage'', [''bb:1''])]\<rparr>) (Vars req0))) = None \<and>
   ran (postBuild ext0 eng0 ''1.14'' newResponseWriter req0 (Vars req0)) =
     [SetenvJson ''configFile'' emptyConfigFile
        (SetenvJson ''authConfig'' emptyAuthConfig
           (Setenv ''forcerm'' [] (Setenv ''nocache'' [] (Setenv ''q'' [] (Setenv ''t'' []
              (Setenv ''remote'' []
                 ((Setenv ''rm'' ''1'' (SetenvBool ''json'' True (newJob ''build'' [])))
                    \<lparr>jstdin := Some []\<rparr>)))))))] \<and>
   ret (postBuild ext0 eng0 ''1.14'' newResponseWriter req0 (Vars req0)) = None \<and>
   body (resp (postBuild ext0 eng0 ''1.14'' newResponseWriter req0 (Vars req0))) =
     ''{b}{error:failed}'' \<and>
   map Name (ran (postBuild ext0 eng0 ''1.3'' newResponseWriter req0 (Vars req0))) =
     [''build''] \<and>
   body (resp (postBuild ext0 eng0 ''1.3'' newResponseWriter req0 (Vars req0))) =
     ''{b}Error: failed''"
proof -
  let ?push = "SetenvBool ''json'' True (Setenv ''tag'' []
        (SetenvJson ''authConfig'' (JObject [(''username'', JString ''u'')])
           (SetenvJson ''metaHeaders'' (JObject []) (newJob ''push'' [''c1'']))))"
  let ?build = "SetenvJson ''configFile'' emptyConfigFile
        (SetenvJson ''authConfig'' emptyAuthConfig
           (Setenv ''forcerm'' [] (Setenv ''nocache'' [] (Setenv ''q'' [] (Setenv ''t'' []
              (Setenv ''remote'' []
                 ((Setenv ''rm'' ''1'' (SetenvBool ''json'' True (newJob ''build'' [])))
                    \<lparr>jstdin := Some []\<rparr>)))))))"
  let ?r1 = "req0\<lparr>Header := [(''X-Registry-Auth'', [''ok''])]\<rparr>"
  let ?r2 = "req0\<lparr>Form := [(''fromImage'', [''bb:1''])]\<rparr>"
  let ?o1 = "postImagesPush ext0 eng0 ''1.14'' newResponseWriter ?r1 (Vars req0)"
  let ?o2 = "postImagesCreate ext0 eng0 ''1.14'' newResponseWriter ?r2 (Vars req0)"
  let ?o3 = "postBuild ext0 eng0 ''1.14'' newResponseWriter req0 (Vars req0)"
  let ?o4 = "postBuild ext0 eng0 ''1.3'' newResponseWriter req0 (Vars req0)"
  note eng = eng0_def ext0_def Used_def stdout_writes_def newResponseWriter_def
  have g1: "GreaterThan ''1.14'' ''1.0''" by code_simp
  have g3: "GreaterThanOrEqualTo ''1.14'' ''1.8''" by code_simp
  have g4: "\<not> GreaterThanOrEqualTo ''1.3'' ''1.8''" by code_simp
  have v1: "Vars req0 \<noteq> None" by code_simp
  have p1: "parseForm ?r1 = None" by code_simp
  have a1: "Header_Get ?r1 ''X-Registry-Auth'' \<noteq> []" by code_simp
  have h1: "Vars req0 \<noteq> None \<and> parseForm ?r1 = None \<and>
      (Header_Get ?r1 ''X-Registry-Auth'' \<noteq> [] \<or> (\<exists>a. decodeBody ext0 (Body ?r1) = Inr a))"
    by (rule conjI [OF v1 conjI [OF p1 disjI1 [OF a1]]])
  have h2: "parseForm ?r2 = None" by code_simp
  have f2: "Form_Get ?r2 ''fromImage'' \<noteq> []" by code_simp
  have h3: "\<not> LessThan ''1.14'' ''1.3''" by code_simp
  have h4: "\<not> LessThan ''1.3'' ''1.3''" by code_simp
  have r1: "ran ?o1 = [?push]" by code_simp
  have r3: "ran ?o3 = [?build]" by code_simp
  have e3: "jerr (eng0 ?build) = Some ''failed''" by code_simp
  have u3: "Used (eng0 ?build)" by code_simp
  have w3: "body newResponseWriter @ concat (stdout_writes (eng0 ?build)) @
      FormatError ext0 (GreaterThanOrEqualTo ''1.14'' ''1.8'') ''failed'' = ''{b}{error:failed}''"
    by code_simp
  have h5: "((?o3, GreaterThanOrEqualTo ''1.14'' ''1.8'') =
        (postImagesPush ext0 eng0 ''1.14'' newResponseWriter req0 (Vars req0),
         GreaterThan ''1.14'' ''1.0'') \<or>
      (?o3, GreaterThanOrEqualTo ''1.14'' ''1.8'') =
        (postImagesCreate ext0 eng0 ''1.14'' newResponseWriter req0 (Vars req0),
         GreaterThan ''1.14'' ''1.0'') \<or>
      (?o3, GreaterThanOrEqualTo ''1.14'' ''1.8'') = (?o3, GreaterThanOrEqualTo ''1.14'' ''1.8'')) \<and>
      ran ?o3 = [?build] \<and> jerr (eng0 ?build) = Some ''failed''"
    by (rule conjI [OF disjI2 [OF disjI2 [OF refl]] conjI [OF r3 e3]])
  have a: "ret ?o1 = None \<and> body (resp ?o1) = ''{s}{error:denied}''"
    using streaming_failure_report [where ext = ext0 and eng = eng0 and version = "''1.14''"
        and w = newResponseWriter and r = ?r1 and vars = "Vars req0",
        THEN conjunct1, THEN mp, OF h1] g1
    apply (elim exE conjE)
    apply (simp add: eng)
    done
  have b: "map Name (ran ?o2) = [''pull''] \<and> ret ?o2 = Some ''No such image'' \<and>
      status (resp ?o2) = None"
    using streaming_failure_report [where ext = ext0 and eng = eng0 and version = "''1.14''"
        and w = newResponseWriter and r = ?r2 and vars = "Vars req0",
        THEN conjunct2, THEN conjunct1, THEN mp, OF h2] f2
    apply (elim exE conjE)
    apply (simp add: eng)
    done
  have c: "ret ?o3 = None \<and> body (resp ?o3) = ''{b}{error:failed}''"
    using streaming_failure_report [where ext = ext0 and eng = eng0 and version = "''1.14''"
        and w = newResponseWriter and r = req0 and vars = "Vars req0" and out = ?o3
        and json = "GreaterThanOrEqualTo ''1.14'' ''1.8''" and job = ?build and e = "''failed''",
        THEN conjunct2, THEN conjunct2, THEN conjunct2, THEN mp, OF h5] u3 w3
    by simp
  have d: "map Name (ran ?o4) = [''build''] \<and> body (resp ?o4) = ''{b}Error: failed''"
    using streaming_failure_report [where ext = ext0 and eng = eng0 and version = "''1.3''"
        and w = newResponseWriter and r = req0 and vars = "Vars req0",
        THEN conjunct2, THEN conjunct2, THEN conjunct1, THEN mp, OF h4] g4
    apply (elim exE conjE)
    apply (simp add: eng)
    done
  show ?thesis
    by (simp only: r1 r3 a b c d simp_thms)
qed

section \<open>Credentials that do not decode\<close>

lemma map_of_Env_Set: "map_of (Env_Set k v e) = (map_of e)(k \<mapsto> v)"
  by (induction e) (auto simp: fun_upd_twist)

lemma GetJson_Env_Set:
  "GetJson (Env_Set k v e) k' =
     (if k' = k then (case v of VJson j \<Rightarrow> Some j | _ \<Rightarrow> None) else GetJson e k')"
  by (simp add: GetJson_def map_of_Env_Set)

lemma jenv_Setenv:
  "jenv (Setenv k v job) = Env_Set k (VString v) (jenv job)"
  "jenv (SetenvBool k b job) = Env_Set k (VBool b) (jenv job)"
  "jenv (SetenvJson k j job) = Env_Set k (VJson j) (jenv job)"
  by (simp_all add: Setenv_def SetenvBool_def SetenvJson_def)

lemma ret_runStreaming_success:
  "jerr (eng job) = None \<Longrightarrow> ret (runStreaming ext eng json job w) = None"
  by (simp add: runStreaming_def Let_def returns_def)

lemma push_header_decode_failure:
  assumes "vars \<noteq> None" and "parseForm r = None"
    and "Header_Get r ''X-Registry-Auth'' \<noteq> []"
    and "decodeAuth ext (Header_Get r ''X-Registry-Auth'') = None"
  shows "\<exists>job. ran (postImagesPush ext eng version w r vars) = [job] \<and> Name job = ''push'' \<and>
           GetJson (jenv job) ''authConfig'' = Some emptyAuthConfig \<and>
           postImagesPush ext eng version w r vars =
             runStreaming ext eng (GreaterThan version ''1.0'') job
               (if GreaterThan version ''1.0'' then streamJSON w else w)"
proof -
  from assms(1) obtain vs where "vars = Some vs" by blast
  with assms(2-4) show ?thesis
    unfolding postImagesPush_def Let_def
    by (simp add: runStreaming_ran Name_Setenv jenv_Setenv GetJson_Env_Set)
qed

lemma push_body_decode_failure:
  assumes "vars \<noteq> None" and "parseForm r = None"
    and "Header_Get r ''X-Registry-Auth'' = []"
    and "decodeBody ext (Body r) = Inl e"
  shows "postImagesPush ext eng version w r vars = returns (Some e) w [] []"
proof -
  from assms(1) obtain vs where "vars = Some vs" by blast
  with assms(2-4) show ?thesis
    unfolding postImagesPush_def Let_def
    by simp
qed

lemma search_header_decode_failure:
  assumes "parseForm r = None"
    and "Header_Get r ''X-Registry-Auth'' \<noteq> []"
    and "decodeAuth ext (Header_Get r ''X-Registry-Auth'') = None"
  shows "\<exists>job. ran (getImagesSearch ext eng version w r vars) = [job] \<and> Name job = ''search'' \<and>
           GetJson (jenv job) ''authConfig'' = Some emptyAuthConfig \<and>
           ret (getImagesSearch ext eng version w r vars) = jerr (eng job)"
  using assms unfolding getImagesSearch_def Let_def headerAuthConfig_def
  by (simp add: returns_def Name_Setenv jenv_Setenv GetJson_Env_Set)

lemma pull_header_decode_failure:
  assumes "parseForm r = None" and "Form_Get r ''fromImage'' \<noteq> []"
    and "Header_Get r ''X-Registry-Auth'' \<noteq> []"
    and "decodeAuth ext (Header_Get r ''X-Registry-Auth'') = None"
  shows "\<exists>job. ran (postImagesCreate ext eng version w r vars) = [job] \<and> Name job = ''pull'' \<and>
           GetJson (jenv job) ''authConfig'' = Some emptyAuthConfig \<and>
           postImagesCreate ext eng version w r vars =
             runStreaming ext eng (GreaterThan version ''1.0'') job
               (if GreaterThan version ''1.0'' then streamJSON w else w)"
  using assms unfolding postImagesCreate_def Let_def headerAuthConfig_def
  by (simp add: runStreaming_ran Name_Setenv jenv_Setenv GetJson_Env_Set)


text \<open>
  C8. On push, a registry-auth header that is present and does not decode leaves the
  empty credential object in the job, which is run. On push without the header, a
  request body that does not decode makes the handler return that error with no job
  constructed or run. On search and on pull, a header that does not decode leaves the
  empty credential object in the job, which is run.
\<close>

theorem auth_decode_failure:
  "(vars \<noteq> None \<and> parseForm r = None \<and> Header_Get r ''X-Registry-Auth'' \<noteq> [] \<and>
    decodeAuth ext (Header_Get r ''X-Registry-Auth'') = None \<longrightarrow>
      (\<exists>job. ran (postImagesPush ext eng version w r vars) = [job] \<and> Name job = ''push'' \<and>
         GetJson (jenv job) ''authConfig'' = Some emptyAuthConfig \<and>
         postImagesPush ext eng version w r vars =
           runStreaming ext eng (GreaterThan version ''1.0'') job
             (if GreaterThan version ''1.0'' then streamJSON w else w))) \<and>
   (vars \<noteq> None \<and> parseForm r = None \<and> Header_Get r ''X-Registry-Auth'' = [] \<and>
    decodeBody ext (Body r) = Inl e \<longrightarrow>
      ret (postImagesPush ext eng version w r vars) = Some e \<and>
      resp (postImagesPush ext eng version w r vars) = w \<and>
      created (postImagesPush ext eng version w r vars) = [] \<and>
      ran (postImagesPush ext eng version w r vars) = []) \<and>
   (parseForm r = None \<and> Header_Get r ''X-Registry-Auth'' \<noteq> [] \<and>
    decodeAuth ext (Header_Get r ''X-Registry-Auth'') = None \<longrightarrow>
      (\<exists>job. ran (getImagesSearch ext eng version w r vars) = [job] \<and> Name job = ''search'' \<and>
         GetJson (jenv job) ''authConfig'' = Some emptyAuthConfig \<and>
         ret (getImagesSearch ext eng version w r vars) = jerr (eng job))) \<and>
   (parseForm r = None \<and> Form_Get r ''fromImage'' \<noteq> [] \<and>
    Header_Get r ''X-Registry-Auth'' \<noteq> [] \<and>
    decodeAuth ext (Header_Get r ''X-Registry-Auth'') = None \<longrightarrow>
      (\<exists>job. ran (postImagesCreate ext eng version w r vars) = [job] \<and> Name job = ''pull'' \<and>
         GetJson (jenv job) ''authConfig'' = Some emptyAuthConfig \<and>
         postImagesCreate ext eng version w r vars =
           runStreaming ext eng (GreaterThan version ''1.0'') job
             (if GreaterThan version ''1.0'' then streamJSON w else w)))"
proof (intro conjI impI)
  assume "vars \<noteq> None \<and> parseForm r = None \<and> Header_Get r ''X-Registry-Auth'' \<noteq> [] \<and>
    decodeAuth ext (Header_Get r ''X-Registry-Auth'') = None"
  then show "\<exists>job. ran (postImagesPush ext eng version w r vars) = [job] \<and> Name job = ''push'' \<and>
         GetJson (jenv job) ''authConfig'' = Some emptyAuthConfig \<and>
         postImagesPush ext eng version w r vars =
           runStreaming ext eng (GreaterThan version ''1.0'') job
             (if GreaterThan version ''1.0'' then streamJSON w else w)"
    by (intro push_header_decode_failure) simp_all
next
  assume a: "vars \<noteq> None \<and> parseForm r = None \<and> Header_Get r ''X-Registry-Auth'' = [] \<and>
    decodeBody ext (Body r) = Inl e"
  then have p: "postImagesPush ext eng version w r vars = returns (Some e) w [] []"
    by (intro push_body_decode_failure) simp_all
  show "ret (postImagesPush ext eng version w r vars) = Some e"
    "resp (postImagesPush ext eng version w r vars) = w"
    "created (postImagesPush ext eng version w r vars) = []"
    "ran (postImagesPush ext eng version w r vars) = []"
    by (simp_all add: p returns_def)
next
  assume "parseForm r = None \<and> Header_Get r ''X-Registry-Auth'' \<noteq> [] \<and>
    decodeAuth ext (Header_Get r ''X-Registry-Auth'') = None"
  then show "\<exists>job. ran (getImagesSearch ext eng version w r vars) = [job] \<and> Name job = ''search'' \<and>
         GetJson (jenv job) ''authConfig'' = Some emptyAuthConfig \<and>
         ret (getImagesSearch ext eng version w r vars) = jerr (eng job)"
    by (intro search_header_decode_failure) simp_all
next
  assume "parseForm r = None \<and> Form_Get r ''fromImage'' \<noteq> [] \<and>
    Header_Get r ''X-Registry-Auth'' \<noteq> [] \<and>
    decodeAuth ext (Header_Get r ''X-Registry-Auth'') = None"
  then show "\<exists>job. ran (postImagesCreate ext eng version w r vars) = [job] \<and> Name job = ''pull'' \<and>
         GetJson (jenv job) ''authConfig'' = Some emptyAuthConfig \<and>
         postImagesCreate ext eng version w r vars =
           runStreaming ext eng (GreaterThan version ''1.0'') job
             (if GreaterThan version ''1.0'' then streamJSON w else w)"
    by (intro pull_header_decode_failure) simp_all
qed

theorem auth_decode_failure_witness:
  "(\<exists>job. ran (postImagesPush ext0 eng0 ''1.14'' newResponseWriter
              (req0\<lparr>Header := [(''X-Registry-Auth'', [''bad''])]\<rparr>) (Vars req0)) = [job] \<and>
      Name job = ''push'' \<and> GetJson (jenv job) ''authConfig'' = Some emptyAuthConfig \<and>
      postImagesPush ext0 eng0 ''1.14'' newResponseWriter
              (req0\<lparr>Header := [(''X-Registry-Auth'', [''bad''])]\<rparr>) (Vars req0) =
        runStreaming ext0 eng0 (GreaterThan ''1.14'' ''1.0'') job
          (if GreaterThan ''1.14'' ''1.0'' then streamJSON newResponseWriter
           else newResponseWriter)) \<and>
   (ret (postImagesPush ext0 eng0 ''1.14'' newResponseWriter (req0\<lparr>Body := Some ''x''\<rparr>)
           (Vars req0)) = Some ''EOF'' \<and>
    resp (postImagesPush ext0 eng0 ''1.14'' newResponseWriter (req0\<lparr>Body := Some ''x''\<rparr>)
           (Vars req0)) = newResponseWriter \<and>
    created (postImagesPush ext0 eng0 ''1.14'' newResponseWriter (req0\<lparr>Body := Some ''x''\<rparr>)
           (Vars req0)) = [] \<and>
    ran (postImagesPush ext0 eng0 ''1.14'' newResponseWriter (req0\<lparr>Body := Some ''x''\<rparr>)
           (Vars req0)) = []) \<and>
   (\<exists>job. ran (getImagesSearch ext0 eng0 ''1.14'' newResponseWriter
              (req0\<lparr>Header := [(''X-Registry-Auth'', [''bad''])]\<rparr>) (Vars req0)) = [job] \<and>
      Name job = ''search'' \<and> GetJson (jenv job) ''authConfig'' = Some emptyAuthConfig \<and>
      ret (getImagesSearch ext0 eng0 ''1.14'' newResponseWriter
              (req0\<lparr>Header := [(''X-Registry-Auth'', [''bad''])]\<rparr>) (Vars req0)) =
        jerr (eng0 job)) \<and>
   (\<exists>job. ran (postImagesCreate ext0 eng0 ''1.14'' newResponseWriter
              (req0\<lparr>Header := [(''X-Registry-Auth'', [''bad''])],
                    Form := [(''fromImage'', [''bb:1''])]\<rparr>) (Vars req0)) = [job] \<and>
      Name job = ''pull'' \<and> GetJson (jenv job) ''authConfig'' = Some emptyAuthConfig \<and>
      postImagesCreate ext0 eng0 ''1.14'' newResponseWriter
              (req0\<lparr>Header := [(''X-Registry-Auth'', [''bad''])],
                    Form := [(''fromImage'', [''bb:1''])]\<rparr>) (Vars req0) =
        runStreaming ext0 eng0 (GreaterThan ''1.14'' ''1.0'') job
          (if GreaterThan ''1.14'' ''1.0'' then streamJSON newResponseWriter
           else newResponseWriter))"
proof (intro conjI)
  let ?bad = "req0\<lparr>Header := [(''X-Registry-Auth'', [''bad''])]\<rparr>"
  let ?nobody = "req0\<lparr>Body := Some ''x''\<rparr>"
  let ?pull = "req0\<lparr>Header := [(''X-Registry-Auth'', [''bad''])],
                    Form := [(''fromImage'', [''bb:1''])]\<rparr>"
  have h1: "Vars req0 \<noteq> None \<and> parseForm ?bad = None \<and>
      Header_Get ?bad ''X-Registry-Auth'' \<noteq> [] \<and>
      decodeAuth ext0 (Header_Get ?bad ''X-Registry-Auth'') = None"
    by code_simp
  have h2: "Vars req0 \<noteq> None \<and> parseForm ?nobody = None \<and>
      Header_Get ?nobody ''X-Registry-Auth'' = [] \<and>
      decodeBody ext0 (Body ?nobody) = Inl ''EOF''"
    by code_simp
  have h3: "parseForm ?bad = None \<and> Header_Get ?bad ''X-Registry-Auth'' \<noteq> [] \<and>
      decodeAuth ext0 (Header_Get ?bad ''X-Registry-Auth'') = None"
    by code_simp
  have h4: "parseForm ?pull = None \<and> Form_Get ?pull ''fromImage'' \<noteq> [] \<and>
      Header_Get ?pull ''X-Registry-Auth'' \<noteq> [] \<and>
      decodeAuth ext0 (Header_Get ?pull ''X-Registry-Auth'') = None"
    by code_simp
  note t1 = auth_decode_failure [where vars = "Vars req0" and r = ?bad and ext = ext0
      and eng = eng0 and version = "''1.14''" and w = newResponseWriter]
  note t2 = auth_decode_failure [where vars = "Vars req0" and r = ?nobody and ext = ext0
      and eng = eng0 and version = "''1.14''" and w = newResponseWriter and e = "''EOF''"]
  note t4 = auth_decode_failure [where vars = "Vars req0" and r = ?pull and ext = ext0
      and eng = eng0 and version = "''1.14''" and w = newResponseWriter]
  show "\<exists>job. ran (postImagesPush ext0 eng0 ''1.14'' newResponseWriter ?bad (Vars req0)) = [job] \<and>
      Name job = ''push'' \<and> GetJson (jenv job) ''authConfig'' = Some emptyAuthConfig \<and>
      postImagesPush ext0 eng0 ''1.14'' newResponseWriter ?bad (Vars req0) =
        runStreaming ext0 eng0 (GreaterThan ''1.14'' ''1.0'') job
          (if GreaterThan ''1.14'' ''1.0'' then streamJSON newResponseWriter
           else newResponseWriter)"
    by (rule t1 [THEN conjunct1, THEN mp, OF h1])
  show "ret (postImagesPush ext0 eng0 ''1.14'' newResponseWriter ?nobody (Vars req0)) = Some ''EOF''"
    "resp (postImagesPush ext0 eng0 ''1.14'' newResponseWriter ?nobody (Vars req0)) = newResponseWriter"
    "created (postImagesPush ext0 eng0 ''1.14'' newResponseWriter ?nobody (Vars req0)) = []"
    "ran (postImagesPush ext0 eng0 ''1.14'' newResponseWriter ?nobody (Vars req0)) = []"
    using t2 [THEN conjunct2, THEN conjunct1, THEN mp, OF h2] by simp_all
  show "\<exists>job. ran (getImagesSearch ext0 eng0 ''1.14'' newResponseWriter ?bad (Vars req0)) = [job] \<and>
      Name job = ''search'' \<and> GetJson (jenv job) ''authConfig'' = Some emptyAuthConfig \<and>
      ret (getImagesSearch ext0 eng0 ''1.14'' newResponseWriter ?bad (Vars req0)) = jerr (eng0 job)"
    by (rule t1 [THEN conjunct2, THEN conjunct2, THEN conjunct1, THEN mp, OF h3])
  show "\<exists>job. ran (postImagesCreate ext0 eng0 ''1.14'' newResponseWriter ?pull (Vars req0)) = [job] \<and>
      Name job = ''pull'' \<and> GetJson (jenv job) ''authConfig'' = Some emptyAuthConfig \<and>
      postImagesCreate ext0 eng0 ''1.14'' newResponseWriter ?pull (Vars req0) =
        runStreaming ext0 eng0 (GreaterThan ''1.14'' ''1.0'') job
          (if GreaterThan ''1.14'' ''1.0'' then streamJSON newResponseWriter
           else newResponseWriter)"
    by (rule t4 [THEN conjunct2, THEN conjunct2, THEN conjunct2, THEN mp, OF h4])
qed


section \<open>Listing containers for old and new clients\<close>

lemma Get_Env_Set:
  "Get (Env_Set k v e) k' =
     (if k' = k then (case v of VString s \<Rightarrow> s | _ \<Rightarrow> []) else Get e k')"
  by (simp add: Get_def map_of_Env_Set)

lemma legacyPorts_fields:
  "Get (legacyPorts ext out) ''Ports'' = DisplayablePorts ext (Get out ''Ports'') \<and>
   (\<forall>k. k \<noteq> ''Ports'' \<longrightarrow> map_of (legacyPorts ext out) k = map_of out k)"
  by (simp add: legacyPorts_def Get_Env_Set map_of_Env_Set)

lemma getContainersJSON_streaming:
  assumes "parseForm r = None" and "GreaterThanOrEqualTo version ''1.5''"
  shows "\<exists>job. ran (getContainersJSON ext eng version w r vars) = [job] \<and>
           Name job = ''containers'' \<and>
           ret (getContainersJSON ext eng version w r vars) = jerr (eng job) \<and>
           resp (getContainersJSON ext eng version w r vars) =
             Write_all (stdout_writes (eng job)) (streamJSON w)"
  using assms unfolding getContainersJSON_def Let_def
  by (simp add: LessThan_iff_not_GreaterThanOrEqualTo returns_def Name_Setenv
      split: option.splits)

lemma getContainersJSON_legacy:
  assumes "parseForm r = None" and "LessThan version ''1.5''" and "AddTable_err ext = None"
  shows "\<exists>job. ran (getContainersJSON ext eng version w r vars) = [job] \<and>
           Name job = ''containers'' \<and>
           (case jerr (eng job) of
              Some e \<Rightarrow>
                ret (getContainersJSON ext eng version w r vars) = Some e \<and>
                resp (getContainersJSON ext eng version w r vars) = w
            | None \<Rightarrow>
                ret (getContainersJSON ext eng version w r vars) = None \<and>
                resp (getContainersJSON ext eng version w r vars) =
                  Write (WriteListTo ext
                           (map (legacyPorts ext)
                              (decodeTable ext (concat (stdout_writes (eng job))))))
                    (Header_Set ''Content-Type'' ''application/json'' w))"
  using assms unfolding getContainersJSON_def Let_def
  by (simp add: LessThan_iff_not_GreaterThanOrEqualTo returns_def Name_Setenv
      split: option.splits)

lemma getContainersJSON_job_version:
  "ran (getContainersJSON ext eng v1 w1 r vars) = [j1] \<Longrightarrow>
   ran (getContainersJSON ext eng v2 w2 r vars) = [j2] \<Longrightarrow> j1 = j2"
  unfolding getContainersJSON_def Let_def
  by (simp add: returns_def split: option.splits if_splits)


lemma body_Header_Set: "body (Header_Set k v w) = body w"
  by (simp add: Header_Set_def)

lemma getContainersJSON_same_state:
  assumes "parseForm r = None" and "GreaterThanOrEqualTo v1 ''1.5''" and "LessThan v2 ''1.5''"
    and "AddTable_err ext = None"
    and "ret (getContainersJSON ext eng v2 newResponseWriter r vars) = None"
  shows "body (resp (getContainersJSON ext eng v2 newResponseWriter r vars)) =
     WriteListTo ext
       (map (legacyPorts ext)
          (decodeTable ext (body (resp (getContainersJSON ext eng v1 newResponseWriter r vars)))))"
proof -
  obtain j1 where j1: "ran (getContainersJSON ext eng v1 newResponseWriter r vars) = [j1]"
    "resp (getContainersJSON ext eng v1 newResponseWriter r vars) =
       Write_all (stdout_writes (eng j1)) (streamJSON newResponseWriter)"
    using getContainersJSON_streaming [OF assms(1,2), of ext eng newResponseWriter vars] by blast
  obtain j2 where j2: "ran (getContainersJSON ext eng v2 newResponseWriter r vars) = [j2]"
    and c: "(case jerr (eng j2) of
              Some e \<Rightarrow>
                ret (getContainersJSON ext eng v2 newResponseWriter r vars) = Some e \<and>
                resp (getContainersJSON ext eng v2 newResponseWriter r vars) = newResponseWriter
            | None \<Rightarrow>
                ret (getContainersJSON ext eng v2 newResponseWriter r vars) = None \<and>
                resp (getContainersJSON ext eng v2 newResponseWriter r vars) =
                  Write (WriteListTo ext
                           (map (legacyPorts ext)
                              (decodeTable ext (concat (stdout_writes (eng j2))))))
                    (Header_Set ''Content-Type'' ''application/json'' newResponseWriter))"
    using getContainersJSON_legacy [OF assms(1,3,4), of eng newResponseWriter vars] by blast
  have eq: "j1 = j2"
    using j1(1) j2 by (rule getContainersJSON_job_version)
  have ok: "jerr (eng j2) = None"
    using c assms(5) by (cases "jerr (eng j2)") simp_all
  have b1: "body (resp (getContainersJSON ext eng v1 newResponseWriter r vars)) =
      concat (stdout_writes (eng j2))"
    unfolding j1(2) eq
    by (simp add: body_Write_all body_streamJSON newResponseWriter_def)
  have r2: "resp (getContainersJSON ext eng v2 newResponseWriter r vars) =
      Write (WriteListTo ext
               (map (legacyPorts ext) (decodeTable ext (concat (stdout_writes (eng j2))))))
        (Header_Set ''Content-Type'' ''application/json'' newResponseWriter)"
    using c ok by simp
  show ?thesis
    unfolding r2 b1
    by (simp add: body_Write body_Header_Set newResponseWriter_def)
qed

text \<open>
  C5. \<^verbatim>\<open>GET /containers/json\<close> at version 1.5 or above: every write of the job goes
  straight to the response writer, after the JSON content type is set, and the job's
  error is the handler's. Below 1.5 (the table being attached without error): a failed
  job leaves the response untouched and its error is returned; after a successful job
  the body is \<^verbatim>\<open>WriteListTo\<close> of the decoded table in which every record has its Ports
  replaced by \<^verbatim>\<open>DisplayablePorts\<close> of its Ports and every other key unchanged. For one
  request and one engine, the body sent below 1.5 is that transform of the table
  decoded from the body sent at 1.5 or above.
\<close>

theorem containers_listing_shapes:
  "(parseForm r = None \<and> GreaterThanOrEqualTo version ''1.5'' \<longrightarrow>
      (\<exists>job. ran (getContainersJSON ext eng version w r vars) = [job] \<and>
         Name job = ''containers'' \<and>
         ret (getContainersJSON ext eng version w r vars) = jerr (eng job) \<and>
         resp (getContainersJSON ext eng version w r vars) =
           Write_all (stdout_writes (eng job)) (streamJSON w))) \<and>
   (parseForm r = None \<and> LessThan version ''1.5'' \<and> AddTable_err ext = None \<longrightarrow>
      (\<exists>job. ran (getContainersJSON ext eng version w r vars) = [job] \<and>
         Name job = ''containers'' \<and>
         (case jerr (eng job) of
            Some e \<Rightarrow>
              ret (getContainersJSON ext eng version w r vars) = Some e \<and>
              resp (getContainersJSON ext eng version w r vars) = w
          | None \<Rightarrow>
              ret (getContainersJSON ext eng version w r vars) = None \<and>
              resp (getContainersJSON ext eng version w r vars) =
                Write (WriteListTo ext
                         (map (legacyPorts ext)
                            (decodeTable ext (concat (stdout_writes (eng job))))))
                  (Header_Set ''Content-Type'' ''application/json'' w)))) \<and>
   (Get (legacyPorts ext out) ''Ports'' = DisplayablePorts ext (Get out ''Ports'') \<and>
    (\<forall>k. k \<noteq> ''Ports'' \<longrightarrow> map_of (legacyPorts ext out) k = map_of out k)) \<and>
   (parseForm r = None \<and> GreaterThanOrEqualTo v1 ''1.5'' \<and> LessThan v2 ''1.5'' \<and>
    AddTable_err ext = None \<and>
    ret (getContainersJSON ext eng v2 newResponseWriter r vars) = None \<longrightarrow>
      body (resp (getContainersJSON ext eng v2 newResponseWriter r vars)) =
        WriteListTo ext
          (map (legacyPorts ext)
             (decodeTable ext
                (body (resp (getContainersJSON ext eng v1 newResponseWriter r vars))))))"
proof (intro conjI impI)
  assume "parseForm r = None \<and> GreaterThanOrEqualTo version ''1.5''"
  then show "\<exists>job. ran (getContainersJSON ext eng version w r vars) = [job] \<and>
         Name job = ''containers'' \<and>
         ret (getContainersJSON ext eng version w r vars) = jerr (eng job) \<and>
         resp (getContainersJSON ext eng version w r vars) =
           Write_all (stdout_writes (eng job)) (streamJSON w)"
    by (intro getContainersJSON_streaming) simp_all
next
  assume "parseForm r = None \<and> LessThan version ''1.5'' \<and> AddTable_err ext = None"
  then show "\<exists>job. ran (getContainersJSON ext eng version w r vars) = [job] \<and>
         Name job = ''containers'' \<and>
         (case jerr (eng job) of
            Some e \<Rightarrow>
              ret (getContainersJSON ext eng version w r vars) = Some e \<and>
              resp (getContainersJSON ext eng version w r vars) = w
          | None \<Rightarrow>
              ret (getContainersJSON ext eng version w r vars) = None \<and>
              resp (getContainersJSON ext eng version w r vars) =
                Write (WriteListTo ext
                         (map (legacyPorts ext)
                            (decodeTable ext (concat (stdout_writes (eng job))))))
                  (Header_Set ''Content-Type'' ''application/json'' w))"
    by (intro getContainersJSON_legacy) simp_all
next
  show "Get (legacyPorts ext out) ''Ports'' = DisplayablePorts ext (Get out ''Ports'')"
    using legacyPorts_fields [of ext out] by (rule conjunct1)
next
  show "\<forall>k. k \<noteq> ''Ports'' \<longrightarrow> map_of (legacyPorts ext out) k = map_of out k"
    using legacyPorts_fields [of ext out] by (rule conjunct2)
next
  assume "parseForm r = None \<and> GreaterThanOrEqualTo v1 ''1.5'' \<and> LessThan v2 ''1.5'' \<and>
    AddTable_err ext = None \<and>
    ret (getContainersJSON ext eng v2 newResponseWriter r vars) = None"
  then show "body (resp (getContainersJSON ext eng v2 newResponseWriter r vars)) =
        WriteListTo ext
          (map (legacyPorts ext)
             (decodeTable ext
                (body (resp (getContainersJSON ext eng v1 newResponseWriter r vars)))))"
    by (intro getContainersJSON_same_state) simp_all
qed

theorem containers_listing_shapes_witness:
  "(\<exists>job. ran (getContainersJSON ext0 eng0 ''1.6'' newResponseWriter req0 (Vars req0)) = [job] \<and>
      Name job = ''containers'' \<and>
      ret (getContainersJSON ext0 eng0 ''1.6'' newResponseWriter req0 (Vars req0)) = jerr (eng0 job) \<and>
      resp (getContainersJSON ext0 eng0 ''1.6'' newResponseWriter req0 (Vars req0)) =
        Write_all (stdout_writes (eng0 job)) (streamJSON newResponseWriter)) \<and>
   body (resp (getContainersJSON ext0 eng0 ''1.6'' newResponseWriter req0 (Vars req0))) = ''[c1]'' \<and>
   body (resp (getContainersJSON ext0 eng0 ''1.4'' newResponseWriter req0 (Vars req0))) =
     ''c1:80/tcp;'' \<and>
   body (resp (getContainersJSON ext0 eng0 ''1.4'' newResponseWriter req0 (Vars req0))) =
     WriteListTo ext0
       (map (legacyPorts ext0)
          (decodeTable ext0
             (body (resp (getContainersJSON ext0 eng0 ''1.6'' newResponseWriter req0 (Vars req0))))))"
proof (intro conjI)
  note t = containers_listing_shapes [where r = req0 and ext = ext0 and eng = eng0
      and w = newResponseWriter and vars = "Vars req0" and ?v1.0 = "''1.6''" and ?v2.0 = "''1.4''"]
  have h1: "parseForm req0 = None \<and> GreaterThanOrEqualTo ''1.6'' ''1.5''"
    by code_simp
  have h4: "parseForm req0 = None \<and> GreaterThanOrEqualTo ''1.6'' ''1.5'' \<and>
      LessThan ''1.4'' ''1.5'' \<and> AddTable_err ext0 = None \<and>
      ret (getContainersJSON ext0 eng0 ''1.4'' newResponseWriter req0 (Vars req0)) = None"
    by code_simp
  show "\<exists>job. ran (getContainersJSON ext0 eng0 ''1.6'' newResponseWriter req0 (Vars req0)) = [job] \<and>
      Name job = ''containers'' \<and>
      ret (getContainersJSON ext0 eng0 ''1.6'' newResponseWriter req0 (Vars req0)) = jerr (eng0 job) \<and>
      resp (getContainersJSON ext0 eng0 ''1.6'' newResponseWriter req0 (Vars req0)) =
        Write_all (stdout_writes (eng0 job)) (streamJSON newResponseWriter)"
    by (rule t [where version = "''1.6''", THEN conjunct1, THEN mp, OF h1])
  show "body (resp (getContainersJSON ext0 eng0 ''1.6'' newResponseWriter req0 (Vars req0))) = ''[c1]''"
    by code_simp
  show "body (resp (getContainersJSON ext0 eng0 ''1.4'' newResponseWriter req0 (Vars req0))) =
     ''c1:80/tcp;''"
    by code_simp
  show "body (resp (getContainersJSON ext0 eng0 ''1.4'' newResponseWriter req0 (Vars req0))) =
     WriteListTo ext0
       (map (legacyPorts ext0)
          (decodeTable ext0
             (body (resp (getContainersJSON ext0 eng0 ''1.6'' newResponseWriter req0 (Vars req0))))))"
    by (rule t [THEN conjunct2, THEN conjunct2, THEN conjunct2, THEN mp, OF h4])
qed


section \<open>Listing images for old and new clients\<close>

lemma GetInt64_Env_Set:
  "GetInt64 (Env_Set k v e) k' =
     (if k' = k then (case v of VInt n \<Rightarrow> n | _ \<Rightarrow> -1) else GetInt64 e k')"
  by (simp add: GetInt64_def map_of_Env_Set)

lemma legacyImage_eq:
  "legacyImage ext out repoTag =
     [(''Repository'', VString (fst (ParseRepositoryTag ext repoTag))),
      (''Tag'', VJson (JString (snd (ParseRepositoryTag ext repoTag)))),
      (''Id'', VString (Get out ''Id'')),
      (''Created'', VInt (GetInt64 out ''Created'')),
      (''Size'', VInt (GetInt64 out ''Size'')),
      (''VirtualSize'', VInt (GetInt64 out ''VirtualSize''))]"
  by (simp add: legacyImage_def Let_def)

lemma legacyImage_fields:
  "map fst (legacyImage ext out repoTag) =
     [''Repository'', ''Tag'', ''Id'', ''Created'', ''Size'', ''VirtualSize''] \<and>
   Get (legacyImage ext out repoTag) ''Repository'' = fst (ParseRepositoryTag ext repoTag) \<and>
   GetJson (legacyImage ext out repoTag) ''Tag'' =
     Some (JString (snd (ParseRepositoryTag ext repoTag))) \<and>
   Get (legacyImage ext out repoTag) ''Id'' = Get out ''Id'' \<and>
   GetInt64 (legacyImage ext out repoTag) ''Created'' = GetInt64 out ''Created'' \<and>
   GetInt64 (legacyImage ext out repoTag) ''Size'' = GetInt64 out ''Size'' \<and>
   GetInt64 (legacyImage ext out repoTag) ''VirtualSize'' = GetInt64 out ''VirtualSize''"
  unfolding legacyImage_eq
  by (simp add: Get_def GetJson_def GetInt64_def)

lemma length_legacyImages:
  "length (legacyImages ext outs) = sum_list (map (\<lambda>out. length (GetList out ''RepoTags'')) outs)"
  by (induction outs) (simp_all add: legacyImages_def)

lemma legacyImages_nth:
  "legacyImages ext (out # outs) =
     map (legacyImage ext out) (GetList out ''RepoTags'') @ legacyImages ext outs"
  by (simp add: legacyImages_def)

lemma getImagesJSON_streaming:
  assumes "parseForm r = None" and "GreaterThanOrEqualTo version ''1.7''"
  shows "\<exists>job. ran (getImagesJSON ext eng version w r vars) = [job] \<and>
           Name job = ''images'' \<and>
           ret (getImagesJSON ext eng version w r vars) = jerr (eng job) \<and>
           resp (getImagesJSON ext eng version w r vars) =
             Write_all (stdout_writes (eng job)) (streamJSON w)"
  using assms unfolding getImagesJSON_def Let_def
  by (simp add: LessThan_iff_not_GreaterThanOrEqualTo returns_def Name_Setenv
      split: option.splits)

lemma getImagesJSON_legacy:
  assumes "parseForm r = None" and "LessThan version ''1.7''" and "AddListTable_err ext = None"
  shows "\<exists>job. ran (getImagesJSON ext eng version w r vars) = [job] \<and>
           Name job = ''images'' \<and>
           (case jerr (eng job) of
              Some e \<Rightarrow>
                ret (getImagesJSON ext eng version w r vars) = Some e \<and>
                resp (getImagesJSON ext eng version w r vars) = w
            | None \<Rightarrow>
                ret (getImagesJSON ext eng version w r vars) = None \<and>
                resp (getImagesJSON ext eng version w r vars) =
                  Write (WriteListTo ext
                           (legacyImages ext
                              (decodeListTable ext (concat (stdout_writes (eng job))))))
                    (Header_Set ''Content-Type'' ''application/json'' w))"
  using assms unfolding getImagesJSON_def Let_def
  by (simp add: LessThan_iff_not_GreaterThanOrEqualTo returns_def Name_Setenv
      split: option.splits)


text \<open>
  C6. \<^verbatim>\<open>GET /images/json\<close> below version 1.7 (the list table being attached without
  error): a failed job leaves the response untouched and its error is returned; after
  a successful job the body is \<^verbatim>\<open>WriteListTo\<close> of the legacy table. The legacy table has,
  in order, one record for every element of the RepoTags list of every record; the
  record has exactly the fields Repository, Tag, Id, Created, Size and VirtualSize,
  where Repository and Tag are the two parts \<^verbatim>\<open>ParseRepositoryTag\<close> gives for the element
  (Tag is set as JSON), Id is the Id string of the modern record and the three numbers
  are those \<^verbatim>\<open>GetInt64\<close> reads from it. At 1.7 or above every write of the job goes
  straight to the response writer.
\<close>

theorem images_listing_legacy:
  "(parseForm r = None \<and> LessThan version ''1.7'' \<and> AddListTable_err ext = None \<longrightarrow>
      (\<exists>job. ran (getImagesJSON ext eng version w r vars) = [job] \<and>
         Name job = ''images'' \<and>
         (case jerr (eng job) of
            Some e \<Rightarrow>
              ret (getImagesJSON ext eng version w r vars) = Some e \<and>
              resp (getImagesJSON ext eng version w r vars) = w
          | None \<Rightarrow>
              ret (getImagesJSON ext eng version w r vars) = None \<and>
              resp (getImagesJSON ext eng version w r vars) =
                Write (WriteListTo ext
                         (legacyImages ext
                            (decodeListTable ext (concat (stdout_writes (eng job))))))
                  (Header_Set ''Content-Type'' ''application/json'' w)))) \<and>
   (parseForm r = None \<and> GreaterThanOrEqualTo version ''1.7'' \<longrightarrow>
      (\<exists>job. ran (getImagesJSON ext eng version w r vars) = [job] \<and>
         Name job = ''images'' \<and>
         ret (getImagesJSON ext eng version w r vars) = jerr (eng job) \<and>
         resp (getImagesJSON ext eng version w r vars) =
           Write_all (stdout_writes (eng job)) (streamJSON w))) \<and>
   legacyImages ext outs =
     concat (map (\<lambda>out. map (legacyImage ext out) (GetList out ''RepoTags'')) outs) \<and>
   length (legacyImages ext outs) =
     sum_list (map (\<lambda>out. length (GetList out ''RepoTags'')) outs) \<and>
   map fst (legacyImage ext out repoTag) =
     [''Repository'', ''Tag'', ''Id'', ''Created'', ''Size'', ''VirtualSize''] \<and>
   Get (legacyImage ext out repoTag) ''Repository'' = fst (ParseRepositoryTag ext repoTag) \<and>
   GetJson (legacyImage ext out repoTag) ''Tag'' =
     Some (JString (snd (ParseRepositoryTag ext repoTag))) \<and>
   Get (legacyImage ext out repoTag) ''Id'' = Get out ''Id'' \<and>
   GetInt64 (legacyImage ext out repoTag) ''Created'' = GetInt64 out ''Created'' \<and>
   GetInt64 (legacyImage ext out repoTag) ''Size'' = GetInt64 out ''Size'' \<and>
   GetInt64 (legacyImage ext out repoTag) ''VirtualSize'' = GetInt64 out ''VirtualSize''"
proof -
  have a: "parseForm r = None \<and> LessThan version ''1.7'' \<and> AddListTable_err ext = None \<longrightarrow>
      (\<exists>job. ran (getImagesJSON ext eng version w r vars) = [job] \<and>
         Name job = ''images'' \<and>
         (case jerr (eng job) of
            Some e \<Rightarrow>
              ret (getImagesJSON ext eng version w r vars) = Some e \<and>
              resp (getImagesJSON ext eng version w r vars) = w
          | None \<Rightarrow>
              ret (getImagesJSON ext eng version w r vars) = None \<and>
              resp (getImagesJSON ext eng version w r vars) =
                Write (WriteListTo ext
                         (legacyImages ext
                            (decodeListTable ext (concat (stdout_writes (eng job))))))
                  (Header_Set ''Content-Type'' ''application/json'' w)))"
    using getImagesJSON_legacy [of r version ext eng w vars] by blast
  have b: "parseForm r = None \<and> GreaterThanOrEqualTo version ''1.7'' \<longrightarrow>
      (\<exists>job. ran (getImagesJSON ext eng version w r vars) = [job] \<and>
         Name job = ''images'' \<and>
         ret (getImagesJSON ext eng version w r vars) = jerr (eng job) \<and>
         resp (getImagesJSON ext eng version w r vars) =
           Write_all (stdout_writes (eng job)) (streamJSON w))"
    using getImagesJSON_streaming [of r version ext eng w vars] by blast
  have c: "legacyImages ext outs =
     concat (map (\<lambda>out. map (legacyImage ext out) (GetList out ''RepoTags'')) outs)"
    by (simp add: legacyImages_def)
  show ?thesis
    using a b c length_legacyImages [of ext outs] legacyImage_fields [of ext out repoTag]
    by (intro conjI) (elim conjE, assumption)+
qed

theorem images_listing_legacy_witness:
  "(\<exists>job. ran (getImagesJSON ext0 eng0 ''1.6'' newResponseWriter req0 (Vars req0)) = [job] \<and>
      Name job = ''images'' \<and>
      (case jerr (eng0 job) of
         Some e \<Rightarrow>
           ret (getImagesJSON ext0 eng0 ''1.6'' newResponseWriter req0 (Vars req0)) = Some e \<and>
           resp (getImagesJSON ext0 eng0 ''1.6'' newResponseWriter req0 (Vars req0)) =
             newResponseWriter
       | None \<Rightarrow>
           ret (getImagesJSON ext0 eng0 ''1.6'' newResponseWriter req0 (Vars req0)) = None \<and>
           resp (getImagesJSON ext0 eng0 ''1.6'' newResponseWriter req0 (Vars req0)) =
             Write (WriteListTo ext0
                      (legacyImages ext0
                         (decodeListTable ext0 (concat (stdout_writes (eng0 job))))))
               (Header_Set ''Content-Type'' ''application/json'' newResponseWriter))) \<and>
   (\<exists>job. ran (getImagesJSON ext0 eng0 ''1.7'' newResponseWriter req0 (Vars req0)) = [job] \<and>
      Name job = ''images'' \<and>
      ret (getImagesJSON ext0 eng0 ''1.7'' newResponseWriter req0 (Vars req0)) = jerr (eng0 job) \<and>
      resp (getImagesJSON ext0 eng0 ''1.7'' newResponseWriter req0 (Vars req0)) =
        Write_all (stdout_writes (eng0 job)) (streamJSON newResponseWriter)) \<and>
   body (resp (getImagesJSON ext0 eng0 ''1.6'' newResponseWriter req0 (Vars req0))) =
     ''i1:bb;i1:bb;'' \<and>
   body (resp (getImagesJSON ext0 eng0 ''1.7'' newResponseWriter req0 (Vars req0))) = ''[i1]''"
proof (intro conjI)
  note t = images_listing_legacy [where r = req0 and ext = ext0 and eng = eng0
      and w = newResponseWriter and vars = "Vars req0"]
  have h1: "parseForm req0 = None \<and> LessThan ''1.6'' ''1.7'' \<and> AddListTable_err ext0 = None"
    by code_simp
  have h2: "parseForm req0 = None \<and> GreaterThanOrEqualTo ''1.7'' ''1.7''"
    by code_simp
  show "\<exists>job. ran (getImagesJSON ext0 eng0 ''1.6'' newResponseWriter req0 (Vars req0)) = [job] \<and>
      Name job = ''images'' \<and>
      (case jerr (eng0 job) of
         Some e \<Rightarrow>
           ret (getImagesJSON ext0 eng0 ''1.6'' newResponseWriter req0 (Vars req0)) = Some e \<and>
           resp (getImagesJSON ext0 eng0 ''1.6'' newResponseWriter req0 (Vars req0)) =
             newResponseWriter
       | None \<Rightarrow>
           ret (getImagesJSON ext0 eng0 ''1.6'' newResponseWriter req0 (Vars req0)) = None \<and>
           resp (getImagesJSON ext0 eng0 ''1.6'' newResponseWriter req0 (Vars req0)) =
             Write (WriteListTo ext0
                      (legacyImages ext0
                         (decodeListTable ext0 (concat (stdout_writes (eng0 job))))))
               (Header_Set ''Content-Type'' ''application/json'' newResponseWriter))"
    by (rule t [where version = "''1.6''", THEN conjunct1, THEN mp, OF h1])
  show "\<exists>job. ran (getImagesJSON ext0 eng0 ''1.7'' newResponseWriter req0 (Vars req0)) = [job] \<and>
      Name job = ''images'' \<and>
      ret (getImagesJSON ext0 eng0 ''1.7'' newResponseWriter req0 (Vars req0)) = jerr (eng0 job) \<and>
      resp (getImagesJSON ext0 eng0 ''1.7'' newResponseWriter req0 (Vars req0)) =
        Write_all (stdout_writes (eng0 job)) (streamJSON newResponseWriter)"
    by (rule t [where version = "''1.7''", THEN conjunct2, THEN conjunct1, THEN mp, OF h2])
  show "body (resp (getImagesJSON ext0 eng0 ''1.6'' newResponseWriter req0 (Vars req0))) =
     ''i1:bb;i1:bb;''"
    by code_simp
  show "body (resp (getImagesJSON ext0 eng0 ''1.7'' newResponseWriter req0 (Vars req0))) = ''[i1]''"
    by code_simp
qed


section \<open>Framing of attach and logs output\<close>

lemma selectStreams_iff:
  "selectStreams c version s =
     (if (\<exists>config. GetSubEnv c ''Config'' = Some config \<and> \<not> GetBool config ''Tty'') \<and>
         GreaterThanOrEqualTo version ''1.6''
      then (StdWriter Stdout s, StdWriter Stderr s) else (s, s))"
  by (cases "GetSubEnv c ''Config''") (simp_all add: selectStreams_def)

lemma ran_attach:
  assumes "ran (postContainersAttach ext eng version w r vars) = [inspect, job]"
  shows "conn (postContainersAttach ext eng version w r vars) =
     rawStreamHeader @
     concat (map (deliver ext
                    (selectStreams (decodeEnv ext (concat (stdout_writes (eng inspect))))
                       version Base))
               (writes (eng job))) @
     (case jerr (eng job) of
        None \<Rightarrow> []
      | Some e \<Rightarrow>
          Writer_bytes ext
            (fst (selectStreams (decodeEnv ext (concat (stdout_writes (eng inspect))))
                    version Base))
            (''Error attaching: '' @ e @ [CHR 0x0A]))"
proof (cases "parseForm r")
  case (Some e)
  with assms show ?thesis by (simp add: postContainersAttach_def ran_returns)
next
  case pf: None
  show ?thesis
  proof (cases vars)
    case None
    with assms pf show ?thesis by (simp add: postContainersAttach_def ran_returns)
  next
    case vs: (Some vs)
    show ?thesis
    proof (cases "AddEnv_err ext")
      case (Some e)
      with assms pf vs show ?thesis by (simp add: postContainersAttach_def ran_returns)
    next
      case ae: None
      define i0 where "i0 = newJob ''container_inspect'' [Vars_get vars ''name'']"
      show ?thesis
      proof (cases "jerr (eng i0)")
        case (Some e)
        with assms pf vs ae show ?thesis
          by (simp add: postContainersAttach_def ran_returns i0_def)
      next
        case ie: None
        show ?thesis
        proof (cases "Hijack_err ext")
          case (Some e)
          with assms pf vs ae ie show ?thesis
            by (simp add: postContainersAttach_def ran_returns i0_def)
        next
          case hj: None
          define aj where "aj = (Setenv ''stderr'' (Form_Get r ''stderr'')
                     (Setenv ''stdout'' (Form_Get r ''stdout'')
                       (Setenv ''stdin'' (Form_Get r ''stdin'')
                         (Setenv ''stream'' (Form_Get r ''stream'')
                           (Setenv ''logs'' (Form_Get r ''logs'')
                             (newJob ''attach'' [Vars_get vars ''name'']))))))
                   \<lparr>jstdin := Body r\<rparr>"
          have "ran (postContainersAttach ext eng version w r vars) = [i0, aj]"
            using pf vs ae ie hj
            by (simp add: postContainersAttach_def i0_def aj_def Let_def)
          with assms have j: "inspect = i0" "job = aj"
            by simp_all
          show ?thesis
            unfolding j using pf vs ae ie hj
            by (cases "jerr (eng aj)")
               (simp_all add: postContainersAttach_def i0_def aj_def Let_def)
        qed
      qed
    qed
  qed
qed


lemma ran_logs:
  assumes "ran (getContainersLogs ext eng version w r vars) = [inspect, job]"
  shows "resp (getContainersLogs ext eng version w r vars) =
     (let streams = selectStreams (decodeEnv ext (concat (stdout_writes (eng inspect))))
                       version Base;
          w1 = Write_all (map (deliver ext streams) (writes (eng job))) w
      in (case jerr (eng job) of
            None \<Rightarrow> w1
          | Some e \<Rightarrow>
              Write (Writer_bytes ext (fst streams)
                       (''Error running logs job: '' @ e @ [CHR 0x0A])) w1))"
proof (cases "parseForm r")
  case (Some e)
  with assms show ?thesis by (simp add: getContainersLogs_def ran_returns)
next
  case pf: None
  show ?thesis
  proof (cases vars)
    case None
    with assms pf show ?thesis by (simp add: getContainersLogs_def ran_returns)
  next
    case vs: (Some vs)
    show ?thesis
    proof (cases "AddEnv_err ext")
      case (Some e)
      with assms pf vs show ?thesis by (simp add: getContainersLogs_def ran_returns Let_def)
    next
      case ae: None
      show ?thesis
      proof (cases "stringBool ext (Form_Get r ''stdout'') \<or> stringBool ext (Form_Get r ''stderr'')")
        case False
        with assms pf vs ae show ?thesis
          by (simp add: getContainersLogs_def ran_returns Let_def)
      next
        case sb: True
        define i0 where "i0 = newJob ''container_inspect'' [Vars_get vars ''name'']"
        define lj where "lj = Setenv ''timestamps'' (Form_Get r ''timestamps'')
                                      (Setenv ''stderr'' (Form_Get r ''stderr'')
                                        (Setenv ''stdout'' (Form_Get r ''stdout'')
                                          (Setenv ''tail'' (Form_Get r ''tail'')
                                            (Setenv ''follow'' (Form_Get r ''follow'')
                                              (newJob ''logs'' [Vars_get vars ''name''])))))"
        show ?thesis
        proof (cases "jerr (eng i0)")
          case (Some e)
          with assms pf vs ae sb show ?thesis
            by (auto simp: getContainersLogs_def ran_returns i0_def Let_def)
        next
          case ie: None
          have "ran (getContainersLogs ext eng version w r vars) = [i0, lj]"
            using pf vs ae sb ie
            by (auto simp: getContainersLogs_def i0_def lj_def Let_def ran_returns)
          with assms have j: "inspect = i0" "job = lj"
            by simp_all
          show ?thesis
            unfolding j using pf vs ae sb ie
            by (auto simp: getContainersLogs_def i0_def lj_def Let_def returns_def)
        qed
      qed
    qed
  qed
qed

lemma deliver_streams:
  "deliver ext (StdWriter Stdout Base, StdWriter Stderr Base) (JobStdout, p) = frame ext Stdout p \<and>
   deliver ext (StdWriter Stdout Base, StdWriter Stderr Base) (JobStderr, p) = frame ext Stderr p \<and>
   deliver ext (Base, Base) (JobStdout, p) = p \<and>
   deliver ext (Base, Base) (JobStderr, p) = p"
  by simp

text \<open>
  C4. The streams that attach and logs hand to their job are both wrapped in a
  \<^verbatim>\<open>StdWriter\<close> (tagged standard and diagnostic) exactly when the inspected container
  has a Config sub-environment whose Tty flag is false and the version is at least 1.6;
  otherwise both are the stream the handler started from, unwrapped. A write through a
  wrapped stream puts the frame of that stream's tag on the connection, a write through
  an unwrapped one puts the bytes themselves. Once both jobs have run, the bytes on the
  hijacked connection (attach) or in the response (logs) are all the job's writes, in
  order, each through the stream of that one choice, made from the inspect job's
  result and the version alone, followed by the error line when the job failed.
\<close>

theorem attach_logs_framing:
  "selectStreams c version s =
     (if (\<exists>config. GetSubEnv c ''Config'' = Some config \<and> \<not> GetBool config ''Tty'') \<and>
         GreaterThanOrEqualTo version ''1.6''
      then (StdWriter Stdout s, StdWriter Stderr s) else (s, s)) \<and>
   (deliver ext (StdWriter Stdout Base, StdWriter Stderr Base) (JobStdout, p) = frame ext Stdout p \<and>
    deliver ext (StdWriter Stdout Base, StdWriter Stderr Base) (JobStderr, p) = frame ext Stderr p \<and>
    deliver ext (Base, Base) (JobStdout, p) = p \<and>
    deliver ext (Base, Base) (JobStderr, p) = p) \<and>
   (ran (postContainersAttach ext eng version w r vars) = [inspect, job] \<longrightarrow>
      conn (postContainersAttach ext eng version w r vars) =
        rawStreamHeader @
        concat (map (deliver ext
                       (selectStreams (decodeEnv ext (concat (stdout_writes (eng inspect))))
                          version Base))
                  (writes (eng job))) @
        (case jerr (eng job) of
           None \<Rightarrow> []
         | Some e \<Rightarrow>
             Writer_bytes ext
               (fst (selectStreams (decodeEnv ext (concat (stdout_writes (eng inspect))))
                       version Base))
               (''Error attaching: '' @ e @ [CHR 0x0A]))) \<and>
   (ran (getContainersLogs ext eng version w r vars) = [inspect, job] \<longrightarrow>
      resp (getContainersLogs ext eng version w r vars) =
        (let streams = selectStreams (decodeEnv ext (concat (stdout_writes (eng inspect))))
                          version Base;
             w1 = Write_all (map (deliver ext streams) (writes (eng job))) w
         in (case jerr (eng job) of
               None \<Rightarrow> w1
             | Some e \<Rightarrow>
                 Write (Writer_bytes ext (fst streams)
                          (''Error running logs job: '' @ e @ [CHR 0x0A])) w1)))"
  using selectStreams_iff [of c version s] deliver_streams [of ext p]
    ran_attach [of ext eng version w r vars inspect job]
    ran_logs [of ext eng version w r vars inspect job]
  by (intro conjI impI) (elim conjE, assumption)+


theorem attach_logs_framing_witness:
  "ran (postContainersAttach ext0 eng0 ''1.14'' newResponseWriter req0 (Vars req0)) =
     [newJob ''container_inspect'' [''c1''],
      (Setenv ''stderr'' [] (Setenv ''stdout'' [] (Setenv ''stdin'' [] (Setenv ''stream'' []
         (Setenv ''logs'' [] (newJob ''attach'' [''c1''])))))) \<lparr>jstdin := Some []\<rparr>] \<and>
   conn (postContainersAttach ext0 eng0 ''1.14'' newResponseWriter req0 (Vars req0)) =
     rawStreamHeader @ ''Eerr'' @ ''Oout'' \<and>
   conn (postContainersAttach ext0 eng0 ''1.5'' newResponseWriter req0 (Vars req0)) =
     rawStreamHeader @ ''err'' @ ''out'' \<and>
   body (resp (getContainersLogs ext0 eng0 ''1.14'' newResponseWriter
     (req0\<lparr>Form := [(''stdout'', [''1''])]\<rparr>) (Vars req0))) =
     ''Eerr'' @ ''Oout''"
proof (intro conjI)
  let ?i = "newJob ''container_inspect'' [''c1'']"
  let ?a = "(Setenv ''stderr'' [] (Setenv ''stdout'' [] (Setenv ''stdin'' [] (Setenv ''stream'' []
         (Setenv ''logs'' [] (newJob ''attach'' [''c1'']))))))\<lparr>jstdin := Some []\<rparr>"
  let ?l = "Setenv ''timestamps'' [] (Setenv ''stderr'' [] (Setenv ''stdout'' ''1''
         (Setenv ''tail'' [] (Setenv ''follow'' [] (newJob ''logs'' [''c1'']))))) "
  have r1: "ran (postContainersAttach ext0 eng0 ''1.14'' newResponseWriter req0 (Vars req0)) =
      [?i, ?a]"
    by code_simp
  have r2: "ran (postContainersAttach ext0 eng0 ''1.5'' newResponseWriter req0 (Vars req0)) =
      [?i, ?a]"
    by code_simp
  have r3: "ran (getContainersLogs ext0 eng0 ''1.14'' newResponseWriter
      (req0\<lparr>Form := [(''stdout'', [''1''])]\<rparr>) (Vars req0)) = [?i, ?l]"
    by code_simp
  note c1 = attach_logs_framing [where ext = ext0 and eng = eng0 and version = "''1.14''"
      and w = newResponseWriter and r = req0 and vars = "Vars req0" and inspect = ?i and job = ?a,
      THEN conjunct2, THEN conjunct2, THEN conjunct1, THEN mp, OF r1]
  note c2 = attach_logs_framing [where ext = ext0 and eng = eng0 and version = "''1.5''"
      and w = newResponseWriter and r = req0 and vars = "Vars req0" and inspect = ?i and job = ?a,
      THEN conjunct2, THEN conjunct2, THEN conjunct1, THEN mp, OF r2]
  note c3 = attach_logs_framing [where ext = ext0 and eng = eng0 and version = "''1.14''"
      and w = newResponseWriter and r = "req0\<lparr>Form := [(''stdout'', [''1''])]\<rparr>"
      and vars = "Vars req0" and inspect = ?i and job = ?l,
      THEN conjunct2, THEN conjunct2, THEN conjunct2, THEN mp, OF r3]
  show "ran (postContainersAttach ext0 eng0 ''1.14'' newResponseWriter req0 (Vars req0)) =
      [?i, ?a]"
    by (rule r1)
  show "conn (postContainersAttach ext0 eng0 ''1.14'' newResponseWriter req0 (Vars req0)) =
     rawStreamHeader @ ''Eerr'' @ ''Oout''"
    unfolding c1 by code_simp
  show "conn (postContainersAttach ext0 eng0 ''1.5'' newResponseWriter req0 (Vars req0)) =
     rawStreamHeader @ ''err'' @ ''out''"
    unfolding c2 by code_simp
  show "body (resp (getContainersLogs ext0 eng0 ''1.14'' newResponseWriter
     (req0\<lparr>Form := [(''stdout'', [''1''])]\<rparr>) (Vars req0))) =
     ''Eerr'' @ ''Oout''"
    unfolding c3 by code_simp
qed


section \<open>The ready notification\<close>

lemma SdNotify_unset:
  "SdNotify net None state = (Some SdNotifyNoSocket, \<lparr>dialled = [], datagrams = []\<rparr>)"
  by (simp add: SdNotify_def)

lemma AcceptConnections_log: "log (snd (AcceptConnections net d)) = log d"
  by (cases "activationLock d") (simp_all add: AcceptConnections_def Let_def)

lemma AcceptConnections_status:
  "activationLock d \<noteq> ChanClosed \<Longrightarrow> fst (AcceptConnections net d) = Return StatusOK_engine"
  by (cases "activationLock d") (simp_all add: AcceptConnections_def Let_def)

lemma AcceptConnections_gate:
  "activationLock (snd (AcceptConnections net d)) =
     (case activationLock d of ChanNil \<Rightarrow> ChanNil | _ \<Rightarrow> ChanClosed)"
  by (cases "activationLock d") (simp_all add: AcceptConnections_def Let_def)

lemma AcceptConnections_indep:
  "fst (AcceptConnections net d) = fst (AcceptConnections net' (d\<lparr>NOTIFY_SOCKET_env := v\<rparr>))"
  by (cases "activationLock d") (simp_all add: AcceptConnections_def Let_def)

text \<open>
  C9, as amended. With \<^verbatim>\<open>NOTIFY_SOCKET\<close> unset, \<^verbatim>\<open>SdNotify\<close> returns \<^verbatim>\<open>SdNotifyNoSocket\<close>
  and dials nothing. \<^verbatim>\<open>AcceptConnections\<close> drops the result of the notification: it
  logs nothing, it returns the success status whenever the gate is not already closed,
  and what it returns is the same for every network and every value of the variable.
\<close>

theorem ready_notification_best_effort:
  "SdNotify net None state = (Some SdNotifyNoSocket, \<lparr>dialled = [], datagrams = []\<rparr>) \<and>
   log (snd (AcceptConnections net d)) = log d \<and>
   (activationLock d \<noteq> ChanClosed \<longrightarrow>
      fst (AcceptConnections net d) = Return StatusOK_engine) \<and>
   fst (AcceptConnections net d) = fst (AcceptConnections net' (d\<lparr>NOTIFY_SOCKET_env := v\<rparr>))"
  using SdNotify_unset [of net state] AcceptConnections_log [of net d]
    AcceptConnections_status [of d net] AcceptConnections_indep [of net d net' v]
  by (intro conjI impI) assumption+

theorem ready_notification_best_effort_witness:
  "activationLock (ServeApi_start None ''3'') \<noteq> ChanClosed \<and>
   fst (SdNotify net0 (NOTIFY_SOCKET_env (ServeApi_start None ''3'')) ''READY=1'') =
     Some SdNotifyNoSocket \<and>
   fst (AcceptConnections net0 (ServeApi_start None ''3'')) = Return StatusOK_engine \<and>
   fst (SdNotify net0 (NOTIFY_SOCKET_env (ServeApi_start (Some ''/run/n'') ''3'')) ''READY=1'') =
     Some (DialError ''connection refused'') \<and>
   fst (AcceptConnections net0 (ServeApi_start (Some ''/run/n'') ''3'')) = Return StatusOK_engine"
proof (intro conjI)
  show h: "activationLock (ServeApi_start None ''3'') \<noteq> ChanClosed"
    by (simp add: ServeApi_start_def)
  show "fst (SdNotify net0 (NOTIFY_SOCKET_env (ServeApi_start None ''3'')) ''READY=1'') =
     Some SdNotifyNoSocket"
    by code_simp
  show "fst (AcceptConnections net0 (ServeApi_start None ''3'')) = Return StatusOK_engine"
    by (rule ready_notification_best_effort [where d = "ServeApi_start None ''3''" and net = net0,
        THEN conjunct2, THEN conjunct2, THEN conjunct1, THEN mp, OF h])
  show "fst (SdNotify net0 (NOTIFY_SOCKET_env (ServeApi_start (Some ''/run/n'') ''3'')) ''READY=1'') =
     Some (DialError ''connection refused'')"
    by code_simp
  have h2: "activationLock (ServeApi_start (Some ''/run/n'') ''3'') \<noteq> ChanClosed"
    by (simp add: ServeApi_start_def)
  show "fst (AcceptConnections net0 (ServeApi_start (Some ''/run/n'') ''3'')) = Return StatusOK_engine"
    by (rule ready_notification_best_effort [where d = "ServeApi_start (Some ''/run/n'') ''3''"
        and net = net0, THEN conjunct2, THEN conjunct2, THEN conjunct1, THEN mp, OF h2])
qed

text \<open>
  C9 as stated has every notification failure logged. Here the socket refuses the
  connection, \<^verbatim>\<open>SdNotify\<close> fails, and the log after \<^verbatim>\<open>AcceptConnections\<close> is the log before
  it. (On a gate that is already closed the operation does not return at all.)
\<close>

theorem notification_failure_not_logged_counterexample:
  "fst (SdNotify net0 (NOTIFY_SOCKET_env (ServeApi_start (Some ''/run/n'') ''3'')) ''READY=1'') =
     Some (DialError ''connection refused'') \<and>
   log (ServeApi_start (Some ''/run/n'') ''3'') = [''Listening for HTTP on fd (3)''] \<and>
   log (snd (AcceptConnections net0 (ServeApi_start (Some ''/run/n'') ''3''))) =
     [''Listening for HTTP on fd (3)''] \<and>
   fst (AcceptConnections net0
          (snd (AcceptConnections net0 (ServeApi_start (Some ''/run/n'') ''3'')))) =
     Panic ''close of closed channel''"
  by code_simp


section \<open>The activation gate\<close>

lemma AcceptConnections_fields:
  "fd_pc (snd (AcceptConnections net d)) = fd_pc d"
  "accepts (snd (AcceptConnections net d)) = accepts d"
  "activationLock d = ChanClosed \<Longrightarrow> activationLock (snd (AcceptConnections net d)) = ChanClosed"
  by (cases "activationLock d"; simp add: AcceptConnections_def Let_def)+

lemma step_gate_inv:
  assumes "step ListenFD net addr ev d = Some d'" and "gate_inv d"
  shows "gate_inv d'"
proof (cases ev)
  case EvListenFD
  with assms show ?thesis
    by (auto simp: step_def gate_inv_def split: if_splits ServeFdPc.splits sum.splits)
next
  case EvReceive
  with assms show ?thesis
    by (auto simp: step_def gate_inv_def split: if_splits ServeFdPc.splits)
next
  case EvAccept
  with assms show ?thesis
    by (auto simp: step_def gate_inv_def split: if_splits ServeFdPc.splits)
next
  case EvAcceptConnections
  with assms have d': "d' = snd (AcceptConnections net d)"
    by (auto simp: step_def split: if_splits)
  show ?thesis
    using assms(2) unfolding d' gate_inv_def
    by (auto simp: AcceptConnections_fields split: ServeFdPc.splits)
qed

lemma run_gate_inv:
  "run ListenFD net addr evs d = Some d' \<Longrightarrow> gate_inv d \<Longrightarrow> gate_inv d'"
proof (induction evs arbitrary: d)
  case Nil
  then show ?case by simp
next
  case (Cons ev evs)
  then show ?case
    by (auto split: option.splits dest: step_gate_inv)
qed

lemma step_keeps_gate:
  assumes "step ListenFD net addr ev d = Some d'" and "ev \<noteq> EvAcceptConnections"
  shows "activationLock d' = activationLock d"
  using assms
  by (cases ev) (auto simp: step_def split: if_splits ServeFdPc.splits sum.splits)

lemma run_keeps_gate:
  "run ListenFD net addr evs d = Some d' \<Longrightarrow> EvAcceptConnections \<notin> set evs \<Longrightarrow>
   activationLock d' = activationLock d"
proof (induction evs arbitrary: d)
  case Nil
  then show ?case by simp
next
  case (Cons ev evs)
  then show ?case
    by (auto split: option.splits dest: step_keeps_gate)
qed

lemma gate_inv_start: "gate_inv (ServeApi_start ns addr)"
  by (simp add: gate_inv_def ServeApi_start_def)

lemma no_accept_before_gate:
  assumes "run ListenFD net addr evs (ServeApi_start ns addr) = Some d" and "0 < accepts d"
  shows "activationLock d = ChanClosed \<and> EvAcceptConnections \<in> set evs"
proof -
  have "gate_inv d"
    using assms(1) gate_inv_start by (rule run_gate_inv)
  with assms(2) have c: "activationLock d = ChanClosed"
    by (simp add: gate_inv_def)
  have "EvAcceptConnections \<in> set evs"
  proof (rule ccontr)
    assume "EvAcceptConnections \<notin> set evs"
    with assms(1) have "activationLock d = activationLock (ServeApi_start ns addr)"
      by (rule run_keeps_gate)
    with c show False by (simp add: ServeApi_start_def)
  qed
  with c show ?thesis by simp
qed

lemma receive_blocks:
  "fd_pc d = AtReceive n \<Longrightarrow> activationLock d \<noteq> ChanClosed \<Longrightarrow>
   step ListenFD net addr EvReceive d = None \<and> step ListenFD net addr EvAccept d = None"
  by (simp add: step_def)

lemma receive_resumes:
  "fd_pc d = AtReceive n \<Longrightarrow> activationLock d = ChanClosed \<Longrightarrow> \<not> panicked d \<Longrightarrow>
   step ListenFD net addr EvReceive d = Some (d\<lparr>fd_pc := Serving n\<rparr>) \<and>
   (0 < n \<longrightarrow> step ListenFD net addr EvAccept (d\<lparr>fd_pc := Serving n\<rparr>) =
      Some (d\<lparr>fd_pc := Serving n, accepts := accepts d + 1\<rparr>))"
  by (simp add: step_def)

lemma AcceptConnections_guard:
  "(activationLock d = ChanOpen \<longrightarrow>
      fst (AcceptConnections net d) = Return StatusOK_engine \<and>
      activationLock (snd (AcceptConnections net d)) = ChanClosed) \<and>
   (activationLock d = ChanNil \<longrightarrow>
      fst (AcceptConnections net d) = Return StatusOK_engine \<and>
      activationLock (snd (AcceptConnections net d)) = ChanNil) \<and>
   (activationLock d = ChanClosed \<longrightarrow>
      fst (AcceptConnections net d) = Panic ''close of closed channel'' \<and>
      panicked (snd (AcceptConnections net d)))"
  by (cases "activationLock d") (simp_all add: AcceptConnections_def Let_def)


text \<open>
  C3, as amended. In every interleaving that starts where \<^verbatim>\<open>ServeApi\<close> starts \<^verbatim>\<open>ServeFd\<close>,
  an accept call on an inherited listener has been made only if the gate is closed and
  \<^verbatim>\<open>AcceptConnections\<close> has run. At its receive \<^verbatim>\<open>ServeFd\<close> is blocked, and no accept is
  possible, while the gate is not closed; once it is closed the receive goes through,
  and the accept calls on the inherited listeners are possible right after.
  \<^verbatim>\<open>AcceptConnections\<close> closes an open gate and returns the success status; it is guarded
  against a gate that was never made (nil), which it leaves alone; it is not guarded
  against a gate that is already closed: closing it again is a run-time panic.
\<close>

theorem activation_gate:
  "(run ListenFD net addr evs (ServeApi_start ns addr) = Some d \<and> 0 < accepts d \<longrightarrow>
      activationLock d = ChanClosed \<and> EvAcceptConnections \<in> set evs) \<and>
   (fd_pc d = AtReceive n \<and> activationLock d \<noteq> ChanClosed \<longrightarrow>
      step ListenFD net addr EvReceive d = None \<and> step ListenFD net addr EvAccept d = None) \<and>
   (fd_pc d = AtReceive n \<and> activationLock d = ChanClosed \<and> \<not> panicked d \<longrightarrow>
      step ListenFD net addr EvReceive d = Some (d\<lparr>fd_pc := Serving n\<rparr>) \<and>
      (0 < n \<longrightarrow> step ListenFD net addr EvAccept (d\<lparr>fd_pc := Serving n\<rparr>) =
         Some (d\<lparr>fd_pc := Serving n, accepts := accepts d + 1\<rparr>))) \<and>
   (activationLock d = ChanOpen \<longrightarrow>
      fst (AcceptConnections net d) = Return StatusOK_engine \<and>
      activationLock (snd (AcceptConnections net d)) = ChanClosed) \<and>
   (activationLock d = ChanNil \<longrightarrow>
      fst (AcceptConnections net d) = Return StatusOK_engine \<and>
      activationLock (snd (AcceptConnections net d)) = ChanNil) \<and>
   (activationLock d = ChanClosed \<longrightarrow>
      fst (AcceptConnections net d) = Panic ''close of closed channel'' \<and>
      panicked (snd (AcceptConnections net d)))"
proof -
  have a: "run ListenFD net addr evs (ServeApi_start ns addr) = Some d \<and> 0 < accepts d \<longrightarrow>
      activationLock d = ChanClosed \<and> EvAcceptConnections \<in> set evs"
    using no_accept_before_gate [of ListenFD net addr evs ns d] by blast
  have b: "fd_pc d = AtReceive n \<and> activationLock d \<noteq> ChanClosed \<longrightarrow>
      step ListenFD net addr EvReceive d = None \<and> step ListenFD net addr EvAccept d = None"
    using receive_blocks [of d n ListenFD net addr] by blast
  have c: "fd_pc d = AtReceive n \<and> activationLock d = ChanClosed \<and> \<not> panicked d \<longrightarrow>
      step ListenFD net addr EvReceive d = Some (d\<lparr>fd_pc := Serving n\<rparr>) \<and>
      (0 < n \<longrightarrow> step ListenFD net addr EvAccept (d\<lparr>fd_pc := Serving n\<rparr>) =
         Some (d\<lparr>fd_pc := Serving n, accepts := accepts d + 1\<rparr>))"
    using receive_resumes [of d n ListenFD net addr] by blast
  show ?thesis
    using a b c AcceptConnections_guard [of d net]
    by (intro conjI) (elim conjE, assumption)+
qed

theorem activation_gate_witness:
  "run (\<lambda>a. Inr 1) net0 ''3'' [EvListenFD, EvAcceptConnections, EvReceive, EvAccept]
     (ServeApi_start None ''3'') =
     Some \<lparr>activationLock = ChanClosed, NOTIFY_SOCKET_env = None,
           log = [''Listening for HTTP on fd (3)''],
           notified = [\<lparr>dialled = [], datagrams = []\<rparr>],
           fd_pc = Serving 1, accepts = 1, panicked = False\<rparr> \<and>
   EvAcceptConnections \<in> set [EvListenFD, EvAcceptConnections, EvReceive, EvAccept] \<and>
   step (\<lambda>a. Inr 1) net0 ''3'' EvReceive ((ServeApi_start None ''3'')\<lparr>fd_pc := AtReceive 1\<rparr>)
     = None \<and>
   step (\<lambda>a. Inr 1) net0 ''3'' EvReceive
     ((ServeApi_start None ''3'')\<lparr>fd_pc := AtReceive 1, activationLock := ChanClosed\<rparr>) =
     Some ((ServeApi_start None ''3'')
             \<lparr>fd_pc := AtReceive 1, activationLock := ChanClosed, fd_pc := Serving 1\<rparr>) \<and>
   fst (AcceptConnections net0 (ServeApi_start None ''3'')) = Return StatusOK_engine \<and>
   activationLock (snd (AcceptConnections net0 (ServeApi_start None ''3''))) = ChanClosed \<and>
   fst (AcceptConnections net0 ((ServeApi_start None ''3'')\<lparr>activationLock := ChanNil\<rparr>)) =
     Return StatusOK_engine \<and>
   panicked (snd (AcceptConnections net0
     ((ServeApi_start None ''3'')\<lparr>activationLock := ChanClosed\<rparr>)))"
proof -
  let ?L = "\<lambda>a::string. Inr 1 :: string + nat"
  let ?d1 = "\<lparr>activationLock = ChanClosed, NOTIFY_SOCKET_env = None,
           log = [''Listening for HTTP on fd (3)''],
           notified = [\<lparr>dialled = [], datagrams = []\<rparr>],
           fd_pc = Serving 1, accepts = 1, panicked = False\<rparr>"
  let ?d2 = "(ServeApi_start None ''3'')\<lparr>fd_pc := AtReceive 1\<rparr>"
  let ?d3 = "(ServeApi_start None ''3'')\<lparr>fd_pc := AtReceive 1, activationLock := ChanClosed\<rparr>"
  let ?d5 = "(ServeApi_start None ''3'')\<lparr>activationLock := ChanNil\<rparr>"
  let ?d6 = "(ServeApi_start None ''3'')\<lparr>activationLock := ChanClosed\<rparr>"
  have h1: "run ?L net0 ''3'' [EvListenFD, EvAcceptConnections, EvReceive, EvAccept]
      (ServeApi_start None ''3'') = Some ?d1 \<and> 0 < accepts ?d1"
    by code_simp
  have h2: "fd_pc ?d2 = AtReceive 1 \<and> activationLock ?d2 \<noteq> ChanClosed"
    by (simp add: ServeApi_start_def)
  have h3: "fd_pc ?d3 = AtReceive 1 \<and> activationLock ?d3 = ChanClosed \<and> \<not> panicked ?d3"
    by (simp add: ServeApi_start_def)
  have h4: "activationLock (ServeApi_start None ''3'') = ChanOpen"
    by (simp add: ServeApi_start_def)
  have h5: "activationLock ?d5 = ChanNil"
    by simp
  have h6: "activationLock ?d6 = ChanClosed"
    by simp
  note c1 = activation_gate [where ListenFD = ?L and net = net0 and addr = "''3''" and ns = None
      and evs = "[EvListenFD, EvAcceptConnections, EvReceive, EvAccept]" and d = ?d1,
      THEN conjunct1, THEN mp, OF h1]
  note c2 = activation_gate [where ListenFD = ?L and net = net0 and addr = "''3''" and d = ?d2
      and n = 1, THEN conjunct2, THEN conjunct1, THEN mp, OF h2]
  note c3 = activation_gate [where ListenFD = ?L and net = net0 and addr = "''3''" and d = ?d3
      and n = 1, THEN conjunct2, THEN conjunct2, THEN conjunct1, THEN mp, OF h3]
  note c4 = activation_gate [where net = net0 and d = "ServeApi_start None ''3''",
      THEN conjunct2, THEN conjunct2, THEN conjunct2, THEN conjunct1, THEN mp, OF h4]
  note c5 = activation_gate [where net = net0 and d = ?d5,
      THEN conjunct2, THEN conjunct2, THEN conjunct2, THEN conjunct2, THEN conjunct1, THEN mp,
      OF h5]
  note c6 = activation_gate [where net = net0 and d = ?d6,
      THEN conjunct2, THEN conjunct2, THEN conjunct2, THEN conjunct2, THEN conjunct2, THEN mp,
      OF h6]
  show ?thesis
    using h1 c1 c2 c3 c4 c5 c6 by simp
qed

text \<open>
  C3 as stated has a second invocation of the closing operation not fault. The first
  \<^verbatim>\<open>AcceptConnections\<close> closes the gate and returns the success status; the second
  closes the closed channel and panics, and the process does nothing after that.
\<close>

theorem second_AcceptConnections_counterexample:
  "fst (AcceptConnections net0 (ServeApi_start None ''3'')) = Return StatusOK_engine \<and>
   activationLock (snd (AcceptConnections net0 (ServeApi_start None ''3''))) = ChanClosed \<and>
   fst (AcceptConnections net0 (snd (AcceptConnections net0 (ServeApi_start None ''3'')))) =
     Panic ''close of closed channel'' \<and>
   run (\<lambda>a. Inr 1) net0 ''3'' [EvAcceptConnections, EvAcceptConnections, EvListenFD]
     (ServeApi_start None ''3'') = None"
  by code_simp

end
